theory Spec2Isabelle
  imports Complex_Main
begin

section \<open>JavaScript numbers\<close>

text \<open>
  The game logic of \<^verbatim>\<open>game-config.js\<close> (tier tables and \<^verbatim>\<open>getTier\<close>) and of
  \<^verbatim>\<open>game-core.js\<close> (class \<^verbatim>\<open>GameCore\<close>) computes on JavaScript numbers. Finite
  numbers are modelled as mathematical reals (no rounding of the binary representation),
  values that the source produces with \<^verbatim>\<open>Math.floor\<close> or \<^verbatim>\<open>Math.round\<close> as integers,
  and counters that start at an integer and are only incremented as naturals.
  \<^verbatim>\<open>Math.pow(x, y)\<close> with \<open>x \<ge> 0\<close> and a positive constant \<open>y\<close> is \<open>x powr y\<close>,
  \<^verbatim>\<open>Math.round(x)\<close> is \<open>\<lfloor>x + 1/2\<rfloor>\<close>, \<^verbatim>\<open>Math.log1p(x)\<close> is \<open>ln (1 + x)\<close>.
  The one place where the rounding of doubles decides a property, the splitting of an
  experience award, has a second model with that rounding (\<open>fl\<close>, \<open>awardExp\<close>).
\<close>

definition Math_pow :: "real \<Rightarrow> real \<Rightarrow> real" where
  "Math_pow x y = x powr y"

definition Math_round :: "real \<Rightarrow> int" where
  "Math_round x = \<lfloor>x + 1 / 2\<rfloor>"

definition Math_floor :: "real \<Rightarrow> int" where
  "Math_floor x = \<lfloor>x\<rfloor>"

datatype js_error = TypeError

section \<open>Tier tables and the tier resolver\<close>

text \<open>
  A tier row is the array \<^verbatim>\<open>[name, threshold, ...extras]\<close>; the extras
  (\<^verbatim>\<open>tier.slice(2)\<close>) differ between the rarity and the mold table, so their type
  is a parameter.
\<close>

type_synonym 'v tier = "string \<times> int \<times> 'v"

definition tier_name :: "'v tier \<Rightarrow> string" where
  "tier_name t = fst t"

definition tier_threshold :: "'v tier \<Rightarrow> int" where
  "tier_threshold t = fst (snd t)"

definition tier_extras :: "'v tier \<Rightarrow> 'v" where
  "tier_extras t = snd (snd t)"

definition MAXIMUM_VALUE :: real where
  "MAXIMUM_VALUE = 10 ^ 20"

record 'v tier_result =
  tier :: string
  rng_roll :: int
  range_start :: int
  range_end :: int
  tier_values :: 'v

text \<open>\<^verbatim>\<open>const prev = i > 0 ? tiers[i - 1][1] : 0\<close>\<close>

definition prevThreshold :: "'v tier list \<Rightarrow> nat \<Rightarrow> int" where
  "prevThreshold tiers i = (if i > 0 then tier_threshold (tiers ! (i - 1)) else 0)"

text \<open>The \<^verbatim>\<open>for\<close> loop of \<^verbatim>\<open>getTier\<close>, from index \<open>i\<close>; \<open>None\<close> when it falls through.\<close>

function getTier_scan :: "int \<Rightarrow> 'v tier list \<Rightarrow> nat \<Rightarrow> 'v tier_result option" where
  "getTier_scan roll tiers i =
     (if i < length tiers then
        (let t = tiers ! i;
             name = tier_name t;
             threshold = tier_threshold t;
             prev = prevThreshold tiers i;
             extras = tier_extras t
         in if prev < roll \<and> roll \<le> threshold
            then Some \<lparr>tier = name, rng_roll = roll, range_start = prev,
                       range_end = threshold, tier_values = extras\<rparr>
            else getTier_scan roll tiers (i + 1))
      else None)"
  by pat_completeness auto
termination
  by (relation "measure (\<lambda>(roll, tiers, i). length tiers - i)") auto

declare getTier_scan.simps [simp del]

text \<open>
  \<^verbatim>\<open>getTier(roll, tiers, luckMultiplier)\<close>. The source computes \<^verbatim>\<open>totalRange\<close> from
  \<^verbatim>\<open>luckMultiplier\<close> and never reads it, so the third argument does not influence the
  result. On an empty table \<^verbatim>\<open>tiers[tiers.length - 1]\<close> is \<^verbatim>\<open>undefined\<close> and reading
  \<^verbatim>\<open>lastTier[0]\<close> throws.
\<close>

definition getTier :: "int \<Rightarrow> 'v tier list \<Rightarrow> real \<Rightarrow> js_error + 'v tier_result" where
  "getTier roll tiers luckMultiplier =
     (case getTier_scan roll tiers 0 of
        Some r \<Rightarrow> Inr r
      | None \<Rightarrow>
          (if tiers = [] then Inl TypeError
           else (let lastTier = tiers ! (length tiers - 1)
                 in Inr \<lparr>tier = tier_name lastTier, rng_roll = roll,
                         range_start = (if length tiers > 1
                                        then tier_threshold (tiers ! (length tiers - 2)) else 0),
                         range_end = tier_threshold lastTier,
                         tier_values = tier_extras lastTier\<rparr>)))"

text \<open>
  The tables of \<^verbatim>\<open>game-config.js\<close>. A rarity row carries the price, damage and
  experience multipliers, a mold row the price and experience multipliers.
\<close>

definition RARITY_TIERS :: "(real \<times> real \<times> real) tier list" where
  "RARITY_TIERS =
    [(''Zenith'', Math_floor (MAXIMUM_VALUE / 20000000), 10000, 500, 100),
     (''Universal'', Math_floor (MAXIMUM_VALUE / 950000), 4000, 200, 50),
     (''Cosmic'', Math_floor (MAXIMUM_VALUE / 650000), 1000, 150, 20),
     (''Divine'', Math_floor (MAXIMUM_VALUE / 400000), 750, 100, 13),
     (''Mythical+2'', Math_floor (MAXIMUM_VALUE / 120000), 500, 80, 10),
     (''Mythical+1'', Math_floor (MAXIMUM_VALUE / 70000), 550, 65, 7.75),
     (''Mythical'', Math_floor (MAXIMUM_VALUE / 25000), 300, 40, 6),
     (''Legendary+2'', Math_floor (MAXIMUM_VALUE / 10000), 100, 27.25, 4.5),
     (''Legendary+1'', Math_floor (MAXIMUM_VALUE / 5000), 75, 20, 4),
     (''Legendary'', Math_floor (MAXIMUM_VALUE / 1250), 50, 15, 3.25),
     (''Epic+2'', Math_floor (MAXIMUM_VALUE / 700), 35, 26, 2.5),
     (''Epic+1'', Math_floor (MAXIMUM_VALUE / 275), 25, 20.25, 2.25),
     (''Epic'', Math_floor (MAXIMUM_VALUE / 150), 17.75, 15, 2.1),
     (''Rare+2'', Math_floor (MAXIMUM_VALUE / 100), 10, 10, 1.8),
     (''Rare+1'', Math_floor (MAXIMUM_VALUE / 50), 8.6, 6.5, 1.65),
     (''Rare'', Math_floor (MAXIMUM_VALUE / 45), 7, 4, 1.5),
     (''Uncommon+2'', Math_floor (MAXIMUM_VALUE / 20), 5.5, 2, 1.2),
     (''Uncommon+1'', Math_floor (MAXIMUM_VALUE / 10), 4.2, 1.7, 1.15),
     (''Uncommon'', Math_floor (MAXIMUM_VALUE / 6), 3.75, 1.5, 1.1),
     (''Common+2'', Math_floor (MAXIMUM_VALUE / 2), 2, 1.25, 1.05),
     (''Common+1'', Math_floor (MAXIMUM_VALUE / 1.5), 1.875, 1.1, 1.03),
     (''Common'', Math_floor (MAXIMUM_VALUE / 1), 1.5, 1, 1)]"

definition MOLD_TIERS :: "(real \<times> real) tier list" where
  "MOLD_TIERS =
    [(''Heavenly'', Math_floor (MAXIMUM_VALUE / 1250000), 625, 350),
     (''Hallowed'', Math_floor (MAXIMUM_VALUE / 500000), 200, 120),
     (''Onyx'', Math_floor (MAXIMUM_VALUE / 90000), 90, 50),
     (''Diamond'', Math_floor (MAXIMUM_VALUE / 25000), 50, 20),
     (''Amethyst'', Math_floor (MAXIMUM_VALUE / 5000), 15, 9.5),
     (''Gold'', Math_floor (MAXIMUM_VALUE / 750), 9, 6),
     (''Silver'', Math_floor (MAXIMUM_VALUE / 100), 5, 3.5),
     (''Iron'', Math_floor (MAXIMUM_VALUE / 20), 3, 2),
     (''Bronze'', Math_floor (MAXIMUM_VALUE / 5), 1.75, 1.5),
     (''Copper'', Math_floor (MAXIMUM_VALUE / 1), 1.2, 1.2)]"

text \<open>Weapon rows: type, id, base damage, base defense, mold level required.\<close>

type_synonym weapon_type = "string \<times> nat \<times> real \<times> real \<times> nat"

definition WEAPON_TYPES :: "weapon_type list" where
  "WEAPON_TYPES =
    [(''Sword'', 1, 4, 10, 0),
     (''Sniper'', 2, 20, 5, 10),
     (''Bomb'', 3, 10, 6, 20),
     (''Molotov'', 4, 10, 6, 50),
     (''Car'', 5, 10, 6, 50),
     (''Scythe'', 6, 10, 6, 100),
     (''Train'', 7, 10, 6, 100),
     (''Lance'', 8, 10, 6, 250)]"

definition weapon_name :: "weapon_type \<Rightarrow> string" where
  "weapon_name w = fst w"

definition weapon_base_damage :: "weapon_type \<Rightarrow> real" where
  "weapon_base_damage w = fst (snd (snd w))"

definition weapon_base_defense :: "weapon_type \<Rightarrow> real" where
  "weapon_base_defense w = fst (snd (snd (snd w)))"

definition weapon_mold_required :: "weapon_type \<Rightarrow> nat" where
  "weapon_mold_required w = snd (snd (snd (snd w)))"

text \<open>Area rows of \<^verbatim>\<open>game-enemies.js\<close>: name, luck multiplier, elite multiplier, level
  requirement, drops items.\<close>

definition AREAS :: "(string \<times> real \<times> real \<times> nat \<times> bool) list" where
  "AREAS =
    [(''Champions Hall'', 10000, 1, 100, True),
     (''Elite Hall'', 400, 1000, 60, True),
     (''Adept Hall'', 40, 500, 25, False),
     (''Beginner Hall'', 5, 10, 1, False)]"

text \<open>\<^verbatim>\<open>Array.prototype.findIndex\<close>; \<open>None\<close> stands for the result \<open>-1\<close>.\<close>

fun findIndex :: "('a \<Rightarrow> bool) \<Rightarrow> 'a list \<Rightarrow> nat option" where
  "findIndex P [] = None"
| "findIndex P (x # xs) =
     (if P x then Some 0 else (case findIndex P xs of None \<Rightarrow> None | Some i \<Rightarrow> Some (Suc i)))"

text \<open>\<^verbatim>\<open>xs.splice(i, 1)\<close>: the list without the element at index \<open>i\<close>.\<close>

definition splice1 :: "nat \<Rightarrow> 'a list \<Rightarrow> 'a list" where
  "splice1 i xs = take i xs @ drop (Suc i) xs"

section \<open>Game state\<close>

record item =
  ID :: nat
  RNG :: real
  Mold :: string
  Rarity :: string
  Price :: real
  Weapon :: string
  Damage :: real
  Defense :: real

text \<open>
  An enemy object. The source compares enemies by object identity
  (\<^verbatim>\<open>findIndex(e => e === enemy)\<close>); the field \<open>ref\<close> stands for that identity.
  The field \<^verbatim>\<open>exp\<close> is \<open>exp_reward\<close> and \<^verbatim>\<open>RNG\<close> is \<open>enemy_RNG\<close> here.
\<close>

record enemy =
  ref :: nat
  name :: string
  Elite :: bool
  health :: real
  damage :: real
  exp_reward :: real
  cash :: real
  enemy_RNG :: real
  spawn_time :: real
  despawn_timer :: real

record sell_entry =
  entry_item :: item
  time_added :: real
  timer :: real

text \<open>
  The fields of a \<^verbatim>\<open>GameCore\<close> object that the game logic reads or writes. The nested
  object \<^verbatim>\<open>player\<close> is flattened: \<open>player_level\<close>, \<open>player_exp\<close>, \<open>player_equipped\<close>
  (\<open>None\<close> for \<^verbatim>\<open>null\<close>). \<^verbatim>\<open>spawned_enemies\<close> is an object keyed by area name.
\<close>

record game =
  player_level :: nat
  player_exp :: real
  player_equipped :: "item option"
  money :: real
  item_storage :: "item list"
  recycled_ids :: "nat list"
  mold_level :: nat
  luck_level :: nat
  item_id_counter :: nat
  mold_mult :: real
  luck_multiplier :: real
  enemy_luck_multiplier :: real
  player_luck_multiplier :: real
  mold_cost :: int
  luck_cost :: int
  spawned_enemies :: "string \<rightharpoonup> enemy list"
  sell_area :: "sell_entry list"

section \<open>Progression: levels, multipliers, costs\<close>

definition getLevelScale :: "game \<Rightarrow> real" where
  "getLevelScale g = 1 + real (player_level g) * 0.01"

text \<open>
  \<^verbatim>\<open>Number(x.toFixed(2))\<close>: the multiple of \<open>1/100\<close> nearest to \<open>x\<close>, the larger one
  of two equally near.
\<close>

definition toFixed2 :: "real \<Rightarrow> real" where
  "toFixed2 x = real_of_int \<lfloor>x * 100 + 1 / 2\<rfloor> / 100"

definition updateLuckMult :: "game \<Rightarrow> game" where
  "updateLuckMult g =
    (let levelMult = 1 + real (player_level g) / 100;
         PRE50_OFFSET = 1.05;
         levelScale = getLevelScale g;
         luck1 = (if luck_level g \<le> 50
                  then real_of_int (Math_round ((1 + (ln (1 + real (luck_level g)) - PRE50_OFFSET)
                                                      * levelMult) * 100)) / 100
                  else real_of_int (Math_round (Math_pow (real (luck_level g)) 1.01 * levelMult)));
         mold1 = (if mold_level g \<le> 50
                  then real_of_int (Math_round ((1 + (ln (1 + real (mold_level g)) - PRE50_OFFSET)
                                                      * levelMult) * 100)) / 100
                  else real_of_int (Math_round (Math_pow (real (mold_level g)) 1.015 * levelMult)))
     in g\<lparr>luck_multiplier :=
              toFixed2 (real_of_int (Math_round (luck1 * levelScale * 100)) / 100),
           mold_mult :=
              toFixed2 (real_of_int (Math_round (mold1 * levelScale * 100)) / 100),
           enemy_luck_multiplier :=
              real_of_int (Math_round ((Math_pow levelMult 2.5 - 1 + 1) * 100)) / 100,
           player_luck_multiplier := levelMult\<rparr>)"

definition recalculate :: "game \<Rightarrow> game" where
  "recalculate g =
    updateLuckMult
      (g\<lparr>mold_cost := Math_round (Math_pow (real (mold_level g)) 1.9) + 3,
         luck_cost := Math_round (Math_pow (real (luck_level g)) 2.4) + 5\<rparr>)"

text \<open>The constructor: the initial field values, then \<^verbatim>\<open>this.recalculate()\<close>.\<close>

definition GameCore :: game where
  "GameCore =
    recalculate
      \<lparr>player_level = 1, player_exp = 0, player_equipped = None,
       money = 0, item_storage = [], recycled_ids = [],
       mold_level = 1, luck_level = 1, item_id_counter = 0,
       mold_mult = 1, luck_multiplier = 1, enemy_luck_multiplier = 1,
       player_luck_multiplier = 1, mold_cost = 3, luck_cost = 4,
       spawned_enemies = map_of (map (\<lambda>area. (fst area, [])) AREAS),
       sell_area = []\<rparr>"

definition requiredExp :: "nat \<Rightarrow> int" where
  "requiredExp level = (let baseExp = 100 in Math_floor (baseExp * Math_pow (real level) 1.05))"

text \<open>
  The \<^verbatim>\<open>while\<close> loop of \<^verbatim>\<open>checkLevelUp\<close> on the three variables it changes:
  experience, level and \<^verbatim>\<open>levelsGained\<close>.
\<close>

function levelUpLoop :: "real \<Rightarrow> nat \<Rightarrow> nat \<Rightarrow> real \<times> nat \<times> nat" where
  "levelUpLoop e level levelsGained =
     (if e \<ge> real_of_int (requiredExp level)
      then levelUpLoop (e - real_of_int (requiredExp level)) (level + 1) (levelsGained + 1)
      else (e, level, levelsGained))"
  by pat_completeness auto
termination
proof (relation "measure (\<lambda>(e, level, levelsGained). nat \<lfloor>e\<rfloor> + (if level = 0 then 1 else 0))")
  show "wf (measure (\<lambda>(e, level, levelsGained). nat \<lfloor>e\<rfloor> + (if level = 0 then 1 else 0)))"
    by simp
next
  fix e :: real and level levelsGained :: nat
  assume ge: "real_of_int (requiredExp level) \<le> e"
  show "((e - real_of_int (requiredExp level), level + 1, levelsGained + 1), (e, level, levelsGained))
    \<in> measure (\<lambda>(e, level, levelsGained). nat \<lfloor>e\<rfloor> + (if level = 0 then 1 else 0))"
  proof (cases "level = 0")
    case True
    then have "requiredExp level = 0"
      by (simp add: requiredExp_def Math_floor_def Math_pow_def)
    then show ?thesis using True by simp
  next
    case False
    then have "1 \<le> real level" by simp
    then have "1 \<le> real level powr 1.05" by (rule ge_one_powr_ge_zero) simp
    then have "(100::real) \<le> 100 * real level powr 1.05" by simp
    then have "100 \<le> requiredExp level"
      by (simp add: requiredExp_def Math_floor_def Math_pow_def le_floor_iff)
    moreover have "\<lfloor>e - real_of_int (requiredExp level)\<rfloor> = \<lfloor>e\<rfloor> - requiredExp level"
      by simp
    moreover have "requiredExp level \<le> \<lfloor>e\<rfloor>" using ge by (simp add: le_floor_iff)
    ultimately have "nat (\<lfloor>e\<rfloor> - requiredExp level) < nat \<lfloor>e\<rfloor>"
      and "\<lfloor>e - real_of_int (requiredExp level)\<rfloor> = \<lfloor>e\<rfloor> - requiredExp level"
      by linarith+
    then show ?thesis using False by simp
  qed
qed

declare levelUpLoop.simps [simp del]

text \<open>\<^verbatim>\<open>checkLevelUp()\<close> returns \<^verbatim>\<open>levelsGained\<close>; the second component is the object after the call.\<close>

definition checkLevelUp :: "game \<Rightarrow> nat \<times> game" where
  "checkLevelUp g =
    (case levelUpLoop (player_exp g) (player_level g) 0 of
       (e, level, levelsGained) \<Rightarrow>
         (let g' = g\<lparr>player_exp := e, player_level := level\<rparr>
          in if levelsGained > 0 then (levelsGained, updateLuckMult g') else (0, g')))"

subsection \<open>Experience awards in double precision\<close>

text \<open>
  Whether two awards end like one award of their sum depends on the rounding of the
  additions, so the award is modelled a second time with the arithmetic of doubles:
  \<^verbatim>\<open>this.player.exp += amount\<close> and the loop's \<^verbatim>\<open>this.player.exp -= ...\<close> round their
  result to the nearest double. With rounding the loop need not terminate (for an
  experience so large that the subtraction is rounded away), so it returns an option.
\<close>

text \<open>
  The nearest integer, a tie going to the even one, and with it the rounding of a real to
  the nearest double (53 significant bits, exponent at least -1022; the overflow to
  \<^verbatim>\<open>Infinity\<close> above the largest double is not modelled).
\<close>

definition round_even :: "real \<Rightarrow> int" where
  "round_even y =
    (let f = \<lfloor>y\<rfloor>; r = y - real_of_int f
     in if r < 1 / 2 then f else if r > 1 / 2 then f + 1 else if even f then f else f + 1)"

definition fl :: "real \<Rightarrow> real" where
  "fl x =
    (if x = 0 then 0
     else (let e = max (- 1022) \<lfloor>log 2 \<bar>x\<bar>\<rfloor>;
               u = 2 powr real_of_int (e - 52)
           in real_of_int (round_even (x / u)) * u))"

text \<open>The \<^verbatim>\<open>while\<close> loop of \<^verbatim>\<open>checkLevelUp\<close>, the subtraction rounded.\<close>

partial_function (option) levelUpLoopD :: "real \<Rightarrow> nat \<Rightarrow> nat \<Rightarrow> (real \<times> nat \<times> nat) option" where
  "levelUpLoopD e level levelsGained =
     (if e \<ge> real_of_int (requiredExp level)
      then levelUpLoopD (fl (e - real_of_int (requiredExp level))) (level + 1) (levelsGained + 1)
      else Some (e, level, levelsGained))"

definition checkLevelUpD :: "game \<Rightarrow> (nat \<times> game) option" where
  "checkLevelUpD g =
    (case levelUpLoopD (player_exp g) (player_level g) 0 of
       None \<Rightarrow> None
     | Some (e, level, levelsGained) \<Rightarrow>
         (let g' = g\<lparr>player_exp := e, player_level := level\<rparr>
          in if levelsGained > 0 then Some (levelsGained, updateLuckMult g') else Some (0, g')))"

text \<open>
  An experience award as \<^verbatim>\<open>fightEnemy\<close> and \<^verbatim>\<open>processSellArea\<close> make it: the
  statement \<^verbatim>\<open>this.player.exp += amount\<close> followed by \<^verbatim>\<open>this.checkLevelUp()\<close>;
  \<open>awardExpTwice\<close> is two such awards in succession, and \<open>levelAndExp\<close> reads the level and
  the experience of the object after the call.
\<close>

definition awardExp :: "real \<Rightarrow> game \<Rightarrow> (nat \<times> game) option" where
  "awardExp amount g = checkLevelUpD (g\<lparr>player_exp := fl (player_exp g + amount)\<rparr>)"

definition awardExpTwice :: "real \<Rightarrow> real \<Rightarrow> game \<Rightarrow> (nat \<times> game) option" where
  "awardExpTwice a b g =
    (case awardExp a g of None \<Rightarrow> None | Some (levelsGained, g1) \<Rightarrow> awardExp b g1)"

definition levelAndExp :: "(nat \<times> game) option \<Rightarrow> (nat \<times> real) option" where
  "levelAndExp r = map_option (\<lambda>(levelsGained, g). (player_level g, player_exp g)) r"

section \<open>Item generation\<close>

text \<open>
  Every call of \<^verbatim>\<open>Math.random()\<close> is an argument \<open>rnd\<close> of the model, a real with
  \<open>0 \<le> rnd < 1\<close>; \<^verbatim>\<open>Date.now() / 1000\<close> is an argument too, and so is the global
  \<^verbatim>\<open>gameSettings.auto_sell_threshold\<close>.
  \<^verbatim>\<open>xs[Math.floor(rnd * xs.length)]\<close> is \<open>pick xs rnd\<close>, \<open>None\<close> for \<^verbatim>\<open>undefined\<close>.
\<close>

definition pick :: "'a list \<Rightarrow> real \<Rightarrow> 'a option" where
  "pick xs rnd =
    (let i = Math_floor (rnd * real (length xs))
     in if 0 \<le> i \<and> nat i < length xs then Some (xs ! nat i) else None)"

definition getRarityCostScaling :: "string \<Rightarrow> real" where
  "getRarityCostScaling rarityName =
    (case findIndex (\<lambda>r. tier_name r = rarityName) RARITY_TIERS of
       None \<Rightarrow> 1
     | Some tierIndex \<Rightarrow>
         (let rank = length RARITY_TIERS - tierIndex;
              scale = 1 + Math_pow (real rank) 1.25 / 160
          in min scale 1.85))"

record rng_result =
  rarityResult :: "(real \<times> real \<times> real) tier_result"
  moldResult :: "(real \<times> real) tier_result"
  combinedActual :: real
  rarity :: "int \<times> string \<times> real \<times> real"
  moldInfo :: "int \<times> string \<times> real"

definition rngGen :: "game \<Rightarrow> real \<Rightarrow> real \<Rightarrow> js_error + rng_result" where
  "rngGen g rnd1 rnd2 =
    (let maxRarityRoll = Math_floor (MAXIMUM_VALUE / max 1 (luck_multiplier g));
         maxMoldRoll = Math_floor (MAXIMUM_VALUE / max 1 (mold_mult g));
         rarityRoll = Math_floor (rnd1 * real_of_int (max 1 maxRarityRoll)) + 1;
         moldRoll = Math_floor (rnd2 * real_of_int (max 1 maxMoldRoll)) + 1
     in case getTier rarityRoll RARITY_TIERS (luck_multiplier g) of
          Inl e \<Rightarrow> Inl e
        | Inr rarityRes \<Rightarrow>
            (case getTier moldRoll MOLD_TIERS (mold_mult g) of
               Inl e \<Rightarrow> Inl e
             | Inr moldRes \<Rightarrow>
                 (let rarityPriceMultiplier = fst (tier_values rarityRes);
                      rarityDamageMultiplier = fst (snd (tier_values rarityRes));
                      moldPriceMultiplier = fst (tier_values moldRes);
                      overallRarity = real_of_int maxRarityRoll / real_of_int rarityRoll;
                      overallMold = real_of_int maxMoldRoll / real_of_int moldRoll;
                      combinedOverall = overallRarity * overallMold
                  in Inr \<lparr>rarityResult = rarityRes, moldResult = moldRes,
                          combinedActual =
                            (if combinedOverall < 1000
                             then real_of_int (Math_round (combinedOverall * 10)) / 10
                             else real_of_int (Math_round combinedOverall)),
                          rarity = (range_end rarityRes, tier rarityRes,
                                    rarityPriceMultiplier, rarityDamageMultiplier),
                          moldInfo = (range_end moldRes, tier moldRes, moldPriceMultiplier)\<rparr>)))"

definition getWeapon :: "game \<Rightarrow> real \<Rightarrow> weapon_type option" where
  "getWeapon g rnd =
    (let availableWeapons = filter (\<lambda>weapon. weapon_mold_required weapon \<le> mold_level g) WEAPON_TYPES
     in pick availableWeapons rnd)"

text \<open>
  The item id: \<^verbatim>\<open>recycled_ids.pop()\<close> (the last element) when the free list is not empty,
  else the counter, which is then incremented.
\<close>

definition nextItemId :: "game \<Rightarrow> nat \<times> game" where
  "nextItemId g =
    (if length (recycled_ids g) > 0
     then (last (recycled_ids g), g\<lparr>recycled_ids := butlast (recycled_ids g)\<rparr>)
     else (item_id_counter g, g\<lparr>item_id_counter := item_id_counter g + 1\<rparr>))"

text \<open>
  \<^verbatim>\<open>itemGen()\<close>. Reading \<^verbatim>\<open>weaponData[0]\<close> throws when \<^verbatim>\<open>getWeapon\<close> returned
  \<^verbatim>\<open>undefined\<close>. The result is \<^verbatim>\<open>{itemInfo, combinedActual, rarityResult, moldResult}\<close>
  and the object after the call.
\<close>

definition itemGen ::
  "game \<Rightarrow> real \<Rightarrow> real \<Rightarrow> real \<Rightarrow> real \<Rightarrow> real \<Rightarrow>
   js_error + ((item \<times> real \<times> (real \<times> real \<times> real) tier_result \<times> (real \<times> real) tier_result) \<times> game)" where
  "itemGen g auto_sell_threshold now rndWeapon rnd1 rnd2 =
    (case getWeapon g rndWeapon of
       None \<Rightarrow> Inl TypeError
     | Some weaponData \<Rightarrow>
         (let weapon = weapon_name weaponData;
              weaponBaseDamage = weapon_base_damage weaponData;
              weaponBaseDefense = weapon_base_defense weaponData
          in case rngGen g rnd1 rnd2 of
               Inl e \<Rightarrow> Inl e
             | Inr rr \<Rightarrow>
                 (let basePrice = 4.5;
                      rarityMult = fst (snd (snd (rarity rr))) * 0.95;
                      moldMultPrice = snd (snd (moldInfo rr));
                      costScale = getRarityCostScaling (fst (snd (rarity rr)));
                      price = basePrice * rarityMult * moldMultPrice * costScale;
                      dmg = weaponBaseDamage * snd (snd (snd (rarity rr)));
                      defense = weaponBaseDefense * (snd (snd (snd (rarity rr))) * 0.5);
                      (itemId, g1) = nextItemId g;
                      itemInfo = \<lparr>ID = itemId, RNG = combinedActual rr,
                                  Mold = fst (snd (moldInfo rr)), Rarity = fst (snd (rarity rr)),
                                  Price = price, Weapon = weapon, Damage = dmg,
                                  Defense = defense\<rparr>;
                      g2 = (if combinedActual rr < auto_sell_threshold
                            then g1\<lparr>sell_area := sell_area g1 @
                                     [\<lparr>entry_item = itemInfo, time_added = now, timer = 30\<rparr>]\<rparr>
                            else g1\<lparr>item_storage := item_storage g1 @ [itemInfo]\<rparr>)
                  in Inr ((itemInfo, combinedActual rr, rarityResult rr, moldResult rr), g2))))"

text \<open>
  \<^verbatim>\<open>enemyLoot(enemy)\<close>. The bound of the mold roll divides by
  \<^verbatim>\<open>(mold_mult > 0 ? mold_mult : 1) * player_luck_multiplier\<close>; \<^verbatim>\<open>updateLuckMult\<close>
  sets \<^verbatim>\<open>player_luck_multiplier\<close> to \<open>1 + level / 100\<close>, which is positive.
\<close>

definition enemyLoot :: "game \<Rightarrow> enemy \<Rightarrow> real \<Rightarrow> real \<Rightarrow> js_error + (item \<times> game)" where
  "enemyLoot g en rndWeapon rndMold =
    (let rarityData =
           (case findIndex (\<lambda>r. tier_name r = name en) RARITY_TIERS of
              Some enemyRarityIndex \<Rightarrow> RARITY_TIERS ! enemyRarityIndex
            | None \<Rightarrow> RARITY_TIERS ! (length RARITY_TIERS - 1));
         rarityName = tier_name rarityData;
         priceMult = fst (tier_extras rarityData);
         damageMult = fst (snd (tier_extras rarityData));
         availableWeapons = filter (\<lambda>w. weapon_mold_required w \<le> mold_level g) WEAPON_TYPES
     in case pick availableWeapons rndWeapon of
          None \<Rightarrow> Inl TypeError
        | Some chosen \<Rightarrow>
            (let weaponChoice = weapon_name chosen
             in case find (\<lambda>w. weapon_name w = weaponChoice) WEAPON_TYPES of
                  None \<Rightarrow> Inl TypeError
                | Some found \<Rightarrow>
                    (let damageBase = weapon_base_damage found;
                         defenseBase = weapon_base_defense found;
                         maxMoldIndex = MAXIMUM_VALUE;
                         moldIndex = Math_floor (rndMold * real_of_int (max 1 (Math_floor
                            (maxMoldIndex / ((if mold_mult g > 0 then mold_mult g else 1)
                                             * player_luck_multiplier g)))))
                     in case getTier moldIndex MOLD_TIERS (mold_mult g) of
                          Inl e \<Rightarrow> Inl e
                        | Inr moldRes \<Rightarrow>
                            (let moldMultPrice = fst (tier_values moldRes);
                                 (itemId, g1) = nextItemId g;
                                 costScale = getRarityCostScaling rarityName
                             in Inr (\<lparr>ID = itemId, RNG = enemy_RNG en, Mold = tier moldRes,
                                      Rarity = rarityName,
                                      Price = 5 * priceMult * moldMultPrice * costScale,
                                      Weapon = weaponChoice,
                                      Damage = damageBase * damageMult,
                                      Defense = defenseBase * (damageMult * 0.5)\<rparr>, g1)))))"

section \<open>Combat\<close>

text \<open>
  The division \<^verbatim>\<open>enemyAttack / weapon.Defense\<close> is the one place of the combat code where
  finite operands give a value that is not finite, so the player's health is a JavaScript
  number with its infinities and \<^verbatim>\<open>NaN\<close>. The sign of a zero divisor is not modelled: a
  zero divisor is \<open>+0\<close>.
\<close>

datatype jsnum = Fin real | PosInf | NegInf | NaN

definition js_div :: "real \<Rightarrow> real \<Rightarrow> jsnum" where
  "js_div a b =
    (if b \<noteq> 0 then Fin (a / b)
     else if a > 0 then PosInf
     else if a < 0 then NegInf
     else NaN)"

fun js_floor :: "jsnum \<Rightarrow> jsnum" where
  "js_floor (Fin x) = Fin (real_of_int \<lfloor>x\<rfloor>)"
| "js_floor PosInf = PosInf"
| "js_floor NegInf = NegInf"
| "js_floor NaN = NaN"

text \<open>\<^verbatim>\<open>Math.max(a, x)\<close> for a finite \<open>a\<close>.\<close>

fun js_max :: "real \<Rightarrow> jsnum \<Rightarrow> jsnum" where
  "js_max a (Fin x) = Fin (max a x)"
| "js_max a PosInf = PosInf"
| "js_max a NegInf = Fin a"
| "js_max a NaN = NaN"

fun js_sub :: "jsnum \<Rightarrow> jsnum \<Rightarrow> jsnum" where
  "js_sub (Fin x) (Fin y) = Fin (x - y)"
| "js_sub NaN _ = NaN"
| "js_sub _ NaN = NaN"
| "js_sub (Fin x) PosInf = NegInf"
| "js_sub (Fin x) NegInf = PosInf"
| "js_sub PosInf PosInf = NaN"
| "js_sub PosInf _ = PosInf"
| "js_sub NegInf NegInf = NaN"
| "js_sub NegInf _ = NegInf"

text \<open>The comparisons \<^verbatim>\<open>x > 0\<close> and \<^verbatim>\<open>x <= 0\<close>; both are false for \<^verbatim>\<open>NaN\<close>.\<close>

fun js_gt0 :: "jsnum \<Rightarrow> bool" where
  "js_gt0 (Fin x) = (x > 0)"
| "js_gt0 PosInf = True"
| "js_gt0 NegInf = False"
| "js_gt0 NaN = False"

fun js_le0 :: "jsnum \<Rightarrow> bool" where
  "js_le0 (Fin x) = (x \<le> 0)"
| "js_le0 PosInf = False"
| "js_le0 NegInf = True"
| "js_le0 NaN = False"

text \<open>\<^verbatim>\<open>const damageTaken = Math.max(0, Math.floor(enemyAttack / weapon.Defense))\<close>\<close>

definition damageTaken :: "enemy \<Rightarrow> item \<Rightarrow> jsnum" where
  "damageTaken en weapon =
    (let enemyAttack = damage en
     in js_max 0 (js_floor (js_div enemyAttack (Defense weapon))))"

text \<open>
  The \<^verbatim>\<open>while\<close> loop of \<^verbatim>\<open>fightEnemy\<close> on the two variables it changes,
  \<^verbatim>\<open>playerHealth\<close> and \<^verbatim>\<open>enemyHealth\<close>. The loop leaves through one of three
  \<^verbatim>\<open>return\<close> statements: the enemy's health reached 0 (\<open>EnemyDead\<close>), the player's did
  (\<open>PlayerDead\<close>), or the loop condition failed (\<open>LoopEnded\<close>, the statement after the
  loop). The object is only changed in the first of them, so the loop itself carries no
  game state. A loop that runs forever has the value \<open>None\<close>.
\<close>

datatype loop_exit = EnemyDead | PlayerDead | LoopEnded

partial_function (option) combatLoop :: "item \<Rightarrow> enemy \<Rightarrow> jsnum \<Rightarrow> real \<Rightarrow> loop_exit option" where
  "combatLoop weapon en playerHealth enemyHealth =
    (if js_gt0 playerHealth \<and> enemyHealth > 0 then
       (if enemyHealth - real_of_int (Math_floor (Damage weapon)) \<le> 0 then Some EnemyDead
        else if js_le0 (js_sub playerHealth (damageTaken en weapon)) then Some PlayerDead
        else combatLoop weapon en (js_sub playerHealth (damageTaken en weapon))
               (enemyHealth - real_of_int (Math_floor (Damage weapon))))
     else Some LoopEnded)"

text \<open>
  The results of \<^verbatim>\<open>fightEnemy\<close>: \<^verbatim>\<open>{victory: true, exp, cash, levelsGained, drop}\<close>
  (\<^verbatim>\<open>drop\<close> only for an elite enemy or in Champions Hall) or
  \<^verbatim>\<open>{victory: false, message}\<close>, where the message is either
  "You were defeated by the <name>!" or "Combat ended unexpectedly.".
\<close>

datatype fight_message = DefeatedBy string | EndedUnexpectedly

datatype fight_result = Victory real real nat "item option" | NoVictory fight_message

text \<open>
  The body of \<^verbatim>\<open>if (enemyHealth <= 0) { ... }\<close>: the rewards, the level-ups, the removal
  of the enemy from the area's list when \<^verbatim>\<open>findIndex\<close> finds it, and the loot.
  \<^verbatim>\<open>this.spawned_enemies[areaName]\<close> is \<^verbatim>\<open>undefined\<close> for an unknown area, and calling
  \<^verbatim>\<open>findIndex\<close> on it throws, after the rewards were granted.
\<close>

definition fightVictory ::
  "string \<Rightarrow> enemy \<Rightarrow> real \<Rightarrow> real \<Rightarrow> game \<Rightarrow> (js_error + fight_result) \<times> game" where
  "fightVictory areaName en rndWeapon rndMold g =
    (let g1 = g\<lparr>money := money g + cash en\<rparr>;
         g2 = g1\<lparr>player_exp := player_exp g1 + exp_reward en\<rparr>;
         (levelsGained, g3) = checkLevelUp g2
     in case spawned_enemies g3 areaName of
          None \<Rightarrow> (Inl TypeError, g3)
        | Some enemies \<Rightarrow>
            (let g4 = (case findIndex (\<lambda>e. ref e = ref en) enemies of
                         Some enemyIndex \<Rightarrow>
                           g3\<lparr>spawned_enemies :=
                                (spawned_enemies g3)(areaName \<mapsto> splice1 enemyIndex enemies)\<rparr>
                       | None \<Rightarrow> g3)
             in if Elite en \<or> areaName = ''Champions Hall''
                then (case enemyLoot g4 en rndWeapon rndMold of
                        Inl e \<Rightarrow> (Inl e, g4)
                      | Inr (droppedItem, g5) \<Rightarrow>
                          (Inr (Victory (exp_reward en) (cash en) levelsGained (Some droppedItem)),
                           g5\<lparr>item_storage := item_storage g5 @ [droppedItem]\<rparr>))
                else (Inr (Victory (exp_reward en) (cash en) levelsGained None), g4)))"

text \<open>
  \<^verbatim>\<open>fightEnemy(areaName, enemy, dropItems)\<close>; the source never reads \<^verbatim>\<open>dropItems\<close>.
  The player's health starts at 100. With no weapon equipped (\<^verbatim>\<open>null\<close>) the first
  iteration throws on \<^verbatim>\<open>weapon.Damage\<close>; the loop is entered when the enemy's health is
  positive. \<open>None\<close> is a fight that never returns.
\<close>

definition fightEnemy ::
  "string \<Rightarrow> enemy \<Rightarrow> bool \<Rightarrow> real \<Rightarrow> real \<Rightarrow> game \<Rightarrow> ((js_error + fight_result) \<times> game) option" where
  "fightEnemy areaName en dropItems rndWeapon rndMold g =
    (case player_equipped g of
       None \<Rightarrow>
         (if health en > 0 then Some (Inl TypeError, g)
          else Some (Inr (NoVictory EndedUnexpectedly), g))
     | Some weapon \<Rightarrow>
         (case combatLoop weapon en (Fin 100) (health en) of
            None \<Rightarrow> None
          | Some EnemyDead \<Rightarrow> Some (fightVictory areaName en rndWeapon rndMold g)
          | Some PlayerDead \<Rightarrow> Some (Inr (NoVictory (DefeatedBy (name en))), g)
          | Some LoopEnded \<Rightarrow> Some (Inr (NoVictory EndedUnexpectedly), g)))"

text \<open>\<^verbatim>\<open>removeExpiredEnemies\<close> of \<^verbatim>\<open>game-enemies.js\<close>, the expiry sweep.\<close>

definition removeExpiredEnemies :: "real \<Rightarrow> (string \<rightharpoonup> enemy list) \<Rightarrow> (string \<rightharpoonup> enemy list)" where
  "removeExpiredEnemies currentTime spawnedEnemies =
    (\<lambda>area. map_option
       (filter (\<lambda>en. currentTime - spawn_time en \<le> despawn_timer en)) (spawnedEnemies area))"

section \<open>Upgrades\<close>

text \<open>
  The result \<^verbatim>\<open>{success, message}\<close>; the messages are "Invalid amount.",
  "Not enough money!" and "Upgraded mold level <amount> times!" (or "luck level").
\<close>

datatype upgrade_message = InvalidAmount | NotEnoughMoney | UpgradedTimes int

record upgrade_result =
  success :: bool
  message :: upgrade_message

text \<open>
  The per-level cost expressions of the source: \<^verbatim>\<open>Math.round(Math.pow(level, 1.9)) + 3\<close>
  (mold, in \<^verbatim>\<open>recalculate\<close> and in both loops of \<^verbatim>\<open>upgradeMold\<close>),
  \<^verbatim>\<open>Math.round(Math.pow(level, 2.1)) + 4\<close> (luck, in both loops of \<^verbatim>\<open>upgradeLuck\<close>) and
  \<^verbatim>\<open>Math.round(Math.pow(level, 2.4)) + 5\<close> (luck, in \<^verbatim>\<open>recalculate\<close>).
\<close>

definition moldCostAt :: "nat \<Rightarrow> int" where
  "moldCostAt level = Math_round (Math_pow (real level) 1.9) + 3"

definition luckCostAt :: "nat \<Rightarrow> int" where
  "luckCostAt level = Math_round (Math_pow (real level) 2.1) + 4"

definition luckCostRecalculated :: "nat \<Rightarrow> int" where
  "luckCostRecalculated level = Math_round (Math_pow (real level) 2.4) + 5"

text \<open>The first \<^verbatim>\<open>for\<close> loop of \<^verbatim>\<open>upgradeMold\<close>, run \<open>n\<close> more times.\<close>

fun moldTotalCost :: "nat \<Rightarrow> nat \<Rightarrow> int \<Rightarrow> int" where
  "moldTotalCost 0 tempLevel totalCost = totalCost"
| "moldTotalCost (Suc n) tempLevel totalCost =
     moldTotalCost n (tempLevel + 1)
       (totalCost + (Math_round (Math_pow (real tempLevel) 1.9) + 3))"

text \<open>The second \<^verbatim>\<open>for\<close> loop of \<^verbatim>\<open>upgradeMold\<close>, run \<open>n\<close> more times.\<close>

fun moldBuy :: "nat \<Rightarrow> game \<Rightarrow> game" where
  "moldBuy 0 g = g"
| "moldBuy (Suc n) g =
     moldBuy n
       (let g1 = g\<lparr>mold_level := mold_level g + 1\<rparr>;
            g2 = g1\<lparr>money := money g1 - real_of_int (mold_cost g1)\<rparr>
        in g2\<lparr>mold_cost := Math_round (Math_pow (real (mold_level g2)) 1.9) + 3\<rparr>)"

definition upgradeMold :: "int \<Rightarrow> game \<Rightarrow> upgrade_result \<times> game" where
  "upgradeMold amount g =
    (if amount \<le> 0 then (\<lparr>success = False, message = InvalidAmount\<rparr>, g)
     else (let totalCost = moldTotalCost (nat amount) (mold_level g) 0
           in if money g < real_of_int totalCost
              then (\<lparr>success = False, message = NotEnoughMoney\<rparr>, g)
              else (\<lparr>success = True, message = UpgradedTimes amount\<rparr>,
                    updateLuckMult (moldBuy (nat amount) g))))"

fun luckTotalCost :: "nat \<Rightarrow> nat \<Rightarrow> int \<Rightarrow> int" where
  "luckTotalCost 0 tempLevel totalCost = totalCost"
| "luckTotalCost (Suc n) tempLevel totalCost =
     luckTotalCost n (tempLevel + 1)
       (totalCost + (Math_round (Math_pow (real tempLevel) 2.1) + 4))"

fun luckBuy :: "nat \<Rightarrow> game \<Rightarrow> game" where
  "luckBuy 0 g = g"
| "luckBuy (Suc n) g =
     luckBuy n
       (let g1 = g\<lparr>luck_level := luck_level g + 1\<rparr>;
            g2 = g1\<lparr>money := money g1 - real_of_int (luck_cost g1)\<rparr>
        in g2\<lparr>luck_cost := Math_round (Math_pow (real (luck_level g2)) 2.1) + 4\<rparr>)"

definition upgradeLuck :: "int \<Rightarrow> game \<Rightarrow> upgrade_result \<times> game" where
  "upgradeLuck amount g =
    (if amount \<le> 0 then (\<lparr>success = False, message = InvalidAmount\<rparr>, g)
     else (let totalCost = luckTotalCost (nat amount) (luck_level g) 0
           in if money g < real_of_int totalCost
              then (\<lparr>success = False, message = NotEnoughMoney\<rparr>, g)
              else (\<lparr>success = True, message = UpgradedTimes amount\<rparr>,
                    updateLuckMult (luckBuy (nat amount) g))))"

section \<open>The sell area\<close>

definition rarityExpMult :: "string \<Rightarrow> real" where
  "rarityExpMult rarityName =
    (case find (\<lambda>r. tier_name r = rarityName) RARITY_TIERS of
       Some r \<Rightarrow> snd (snd (tier_extras r))
     | None \<Rightarrow> 1)"

definition moldExpMult :: "string \<Rightarrow> real" where
  "moldExpMult moldName =
    (case find (\<lambda>m. tier_name m = moldName) MOLD_TIERS of
       Some m \<Rightarrow> snd (tier_extras m)
     | None \<Rightarrow> 1)"

text \<open>The body of \<^verbatim>\<open>if (currentTime >= entry.time_added + entry.timer) { ... }\<close> for the
  entry at index \<open>i\<close>: the sale.\<close>

definition sellEntry :: "nat \<Rightarrow> (item \<times> nat) list \<times> game \<Rightarrow> (item \<times> nat) list \<times> game" where
  "sellEntry i st =
    (case st of (soldItems, g) \<Rightarrow>
       (let entry = sell_area g ! i;
            it = entry_item entry;
            expMult = rarityExpMult (Rarity it) * moldExpMult (Mold it);
            g1 = g\<lparr>money := money g + Price it\<rparr>;
            g2 = g1\<lparr>player_exp := player_exp g1 + Price it * expMult\<rparr>;
            (levelsGained, g3) = checkLevelUp g2;
            g4 = g3\<lparr>recycled_ids := recycled_ids g3 @ [ID it]\<rparr>
        in (soldItems @ [(it, levelsGained)],
            g4\<lparr>sell_area := splice1 i (sell_area g4)\<rparr>)))"

text \<open>
  The loop \<^verbatim>\<open>for (let i = this.sell_area.length - 1; i >= 0; i--)\<close>: the argument
  \<open>Suc i\<close> is the iteration at index \<open>i\<close>, and \<open>0\<close> is the end of the loop.
\<close>

fun sellLoop :: "real \<Rightarrow> nat \<Rightarrow> (item \<times> nat) list \<times> game \<Rightarrow> (item \<times> nat) list \<times> game" where
  "sellLoop currentTime 0 st = st"
| "sellLoop currentTime (Suc i) st =
     (let entry = sell_area (snd st) ! i
      in if currentTime \<ge> time_added entry + timer entry
         then sellLoop currentTime i (sellEntry i st)
         else sellLoop currentTime i st)"

text \<open>
  \<^verbatim>\<open>processSellArea()\<close> at the time \<open>currentTime\<close>; it returns \<^verbatim>\<open>soldItems\<close>, a list of
  \<^verbatim>\<open>{item, levelsGained}\<close>. When something was sold the source calls \<^verbatim>\<open>saveGame()\<close>,
  which writes to the browser's storage and leaves the object as it is.
\<close>

definition processSellArea :: "real \<Rightarrow> game \<Rightarrow> (item \<times> nat) list \<times> game" where
  "processSellArea currentTime g = sellLoop currentTime (length (sell_area g)) ([], g)"

text \<open>An entry is due at \<open>currentTime\<close>: the condition of the \<^verbatim>\<open>if\<close> in \<^verbatim>\<open>processSellArea\<close>.\<close>

definition entryDue :: "real \<Rightarrow> sell_entry \<Rightarrow> bool" where
  "entryDue currentTime entry = (currentTime \<ge> time_added entry + timer entry)"

text \<open>The experience that the sale of an entry adds: \<^verbatim>\<open>item.Price * expMult\<close>.\<close>

definition entryExp :: "sell_entry \<Rightarrow> real" where
  "entryExp entry =
    Price (entry_item entry)
      * (rarityExpMult (Rarity (entry_item entry)) * moldExpMult (Mold (entry_item entry)))"

section \<open>Objects for concrete runs\<close>

text \<open>
  Two objects for concrete runs. \<open>commonEnemy\<close> is the enemy that \<^verbatim>\<open>generateEnemy\<close> builds
  for the rarity Common when it is not elite and not in Champions Hall (health
  \<open>\<lfloor>50 * 1.5\<rfloor>\<close>, damage \<open>\<lfloor>5 * 1\<rfloor>\<close>, exp \<open>\<lfloor>20 * 1\<rfloor>\<close>, cash \<open>\<lfloor>50 * 1\<rfloor>\<close>, despawn timer
  \<open>\<lfloor>120 * ln 6 / ln 1.2\<rfloor>\<close>), spawned at time 0. \<open>zenithSword\<close> is a sword of rarity Zenith
  and mold Copper as \<^verbatim>\<open>itemGen\<close> builds it (damage \<open>4 * 500\<close>, defense \<open>10 * (500 * 0.5)\<close>).
\<close>

definition commonEnemy :: enemy where
  "commonEnemy =
    \<lparr>ref = 0, name = ''Common'', Elite = False, health = 75, damage = 5, exp_reward = 20,
     cash = 50, enemy_RNG = 1, spawn_time = 0, despawn_timer = 1179\<rparr>"

definition zenithSword :: item where
  "zenithSword =
    \<lparr>ID = 0, RNG = 20000000, Mold = ''Copper'', Rarity = ''Zenith'',
     Price = 4.5 * (10000 * 0.95) * 1.2 * getRarityCostScaling ''Zenith'',
     Weapon = ''Sword'', Damage = 2000, Defense = 2500\<rparr>"

text \<open>
  A new game with \<open>zenithSword\<close> equipped in which \<open>commonEnemy\<close> was spawned in
  Beginner Hall and the expiry sweep ran at time 1180, after the enemy's despawn time.
\<close>

definition sweptGame :: game where
  "sweptGame =
    GameCore\<lparr>player_equipped := Some zenithSword,
             spawned_enemies := removeExpiredEnemies 1180
               ((spawned_enemies GameCore)(''Beginner Hall'' \<mapsto> [commonEnemy]))\<rparr>"

text \<open>
  \<open>eliteEnemy\<close> is the elite enemy of rarity Common that \<^verbatim>\<open>generateEnemy\<close> builds outside
  Champions Hall (health \<open>\<lfloor>50 * (1.5 * 20)\<rfloor>\<close>, damage \<open>\<lfloor>5 * (1 * 10)\<rfloor>\<close>, exp
  \<open>\<lfloor>20 * (1 * 20)\<rfloor>\<close>, cash \<open>\<lfloor>50 * (1 * 35)\<rfloor>\<close>).
\<close>

definition eliteEnemy :: enemy where
  "eliteEnemy =
    \<lparr>ref = 1, name = ''Common'', Elite = True, health = 1500, damage = 50, exp_reward = 400,
     cash = 1750, enemy_RNG = 1, spawn_time = 0, despawn_timer = 1179\<rparr>"

text \<open>
  The item that \<^verbatim>\<open>enemyLoot\<close> builds for an enemy named Common when the weapon draw picks
  the sword and the mold roll resolves to Copper, with the first item id.
\<close>

definition commonDrop :: item where
  "commonDrop =
    \<lparr>ID = 0, RNG = 1, Mold = ''Copper'', Rarity = ''Common'',
     Price = 5 * 1.5 * 1.2 * getRarityCostScaling ''Common'',
     Weapon = ''Sword'', Damage = 4 * 1, Defense = 10 * (1 * 0.5)\<rparr>"

section \<open>Properties of the tier resolver\<close>

lemma thr_strict:
  assumes "sorted_wrt (<) (map tier_threshold tiers)" "k < j" "j < length tiers"
  shows "tier_threshold (tiers ! k) < tier_threshold (tiers ! j)"
proof -
  from assms have "map tier_threshold tiers ! k < map tier_threshold tiers ! j"
    by (simp add: sorted_wrt_iff_nth_less del: nth_map)
  with assms show ?thesis by simp
qed

lemma thr_mono:
  assumes "sorted_wrt (<) (map tier_threshold tiers)" "k \<le> j" "j < length tiers"
  shows "tier_threshold (tiers ! k) \<le> tier_threshold (tiers ! j)"
proof (cases "k = j")
  case True then show ?thesis by simp
next
  case False
  with assms have "k < j" by simp
  with assms have "map tier_threshold tiers ! k < map tier_threshold tiers ! j"
    by (simp add: sorted_wrt_iff_nth_less del: nth_map)
  with assms show ?thesis by simp
qed

lemma scan_skip:
  assumes "\<forall>k. j \<le> k \<and> k < i \<longrightarrow> \<not> roll \<le> tier_threshold (tiers ! k)"
    and "j \<le> i" "i \<le> length tiers"
  shows "getTier_scan roll tiers j = getTier_scan roll tiers i"
  using assms
proof (induction "i - j" arbitrary: j)
  case 0
  then show ?case by simp
next
  case (Suc n)
  then have lt: "j < i" and "j < length tiers" by simp_all
  then have "\<not> roll \<le> tier_threshold (tiers ! j)" using Suc.prems by simp
  then have "getTier_scan roll tiers j = getTier_scan roll tiers (j + 1)"
    using \<open>j < length tiers\<close> by (subst getTier_scan.simps) (simp add: Let_def)
  also have "\<dots> = getTier_scan roll tiers i"
    using Suc by simp
  finally show ?case .
qed

lemma scan_hit:
  assumes "i < length tiers" "prevThreshold tiers i < roll" "roll \<le> tier_threshold (tiers ! i)"
  shows "getTier_scan roll tiers i =
    Some \<lparr>tier = tier_name (tiers ! i), rng_roll = roll, range_start = prevThreshold tiers i,
          range_end = tier_threshold (tiers ! i), tier_values = tier_extras (tiers ! i)\<rparr>"
  using assms by (subst getTier_scan.simps) (simp add: Let_def)

lemma scan_end: "getTier_scan roll tiers (length tiers) = None"
  by (subst getTier_scan.simps) simp

lemma getTier_row:
  assumes sorted: "sorted_wrt (<) (map tier_threshold tiers)"
    and i: "i < length tiers"
    and lo: "prevThreshold tiers i < roll" and hi: "roll \<le> tier_threshold (tiers ! i)"
  shows "getTier roll tiers luck =
    Inr \<lparr>tier = tier_name (tiers ! i), rng_roll = roll, range_start = prevThreshold tiers i,
          range_end = tier_threshold (tiers ! i), tier_values = tier_extras (tiers ! i)\<rparr>"
proof -
  have "\<not> roll \<le> tier_threshold (tiers ! k)" if "k < i" for k
  proof -
    from that have "0 < i" and "k \<le> i - 1" and "i - 1 < length tiers" using i by simp_all
    then have "tier_threshold (tiers ! k) \<le> tier_threshold (tiers ! (i - 1))"
      using thr_mono [OF sorted] by blast
    also have "\<dots> = prevThreshold tiers i" using \<open>0 < i\<close> by (simp add: prevThreshold_def)
    finally show ?thesis using lo by simp
  qed
  then have "getTier_scan roll tiers 0 = getTier_scan roll tiers i"
    using i by (intro scan_skip) simp_all
  then show ?thesis
    using scan_hit [OF i lo hi] by (simp add: getTier_def)
qed

lemma getTier_fallback:
  assumes sorted: "sorted_wrt (<) (map tier_threshold tiers)"
    and ne: "tiers \<noteq> []"
    and big: "tier_threshold (last tiers) < roll"
  shows "\<exists>res. getTier roll tiers luck = Inr res \<and> tier res = tier_name (last tiers)"
proof -
  have "\<not> roll \<le> tier_threshold (tiers ! k)" if "k < length tiers" for k
  proof -
    from that have "tier_threshold (tiers ! k) \<le> tier_threshold (tiers ! (length tiers - 1))"
      using thr_mono [OF sorted, of k "length tiers - 1"] by simp
    then show ?thesis using big ne by (simp add: last_conv_nth)
  qed
  then have "getTier_scan roll tiers 0 = getTier_scan roll tiers (length tiers)"
    by (intro scan_skip) simp_all
  then show ?thesis using ne by (simp add: getTier_def scan_end Let_def last_conv_nth)
qed

text \<open>
  Claim C4. For a tier table with strictly increasing thresholds and a row index \<open>i\<close>:
  every roll \<open>r\<close> with \<open>prevThreshold i < r \<le> threshold i\<close> (where the previous threshold of
  row 0 is 0) resolves through \<open>getTier\<close> to the name of row \<open>i\<close>; in particular the roll
  \<open>threshold i\<close> resolves to row \<open>i\<close> and the roll \<open>threshold i + 1\<close> to row \<open>i + 1\<close>;
  and a roll above the last threshold yields the last row, the fallback after the loop.
\<close>

theorem getTier_resolves_row:
  assumes "sorted_wrt (<) (map tier_threshold tiers)" and "i < length tiers"
  shows "(prevThreshold tiers i < r \<and> r \<le> tier_threshold (tiers ! i) \<longrightarrow>
            (\<exists>res. getTier r tiers luck = Inr res \<and> tier res = tier_name (tiers ! i)))
       \<and> (prevThreshold tiers i < tier_threshold (tiers ! i) \<longrightarrow>
            (\<exists>res. getTier (tier_threshold (tiers ! i)) tiers luck = Inr res
                   \<and> tier res = tier_name (tiers ! i)))
       \<and> (i + 1 < length tiers \<longrightarrow>
            (\<exists>res. getTier (tier_threshold (tiers ! i) + 1) tiers luck = Inr res
                   \<and> tier res = tier_name (tiers ! (i + 1))))
       \<and> (tier_threshold (last tiers) < r \<longrightarrow>
            (\<exists>res. getTier r tiers luck = Inr res \<and> tier res = tier_name (last tiers)))"
proof (intro conjI impI)
  assume "prevThreshold tiers i < r \<and> r \<le> tier_threshold (tiers ! i)"
  then show "\<exists>res. getTier r tiers luck = Inr res \<and> tier res = tier_name (tiers ! i)"
    using getTier_row [OF assms, of r luck] by simp
next
  assume "prevThreshold tiers i < tier_threshold (tiers ! i)"
  then show "\<exists>res. getTier (tier_threshold (tiers ! i)) tiers luck = Inr res
      \<and> tier res = tier_name (tiers ! i)"
    using getTier_row [OF assms, of "tier_threshold (tiers ! i)" luck] by simp
next
  assume next_row: "i + 1 < length tiers"
  have "tier_threshold (tiers ! i) < tier_threshold (tiers ! (i + 1))"
    using assms(1) next_row thr_strict [of tiers i "i + 1"] by simp
  moreover have "prevThreshold tiers (i + 1) = tier_threshold (tiers ! i)"
    by (simp add: prevThreshold_def)
  ultimately show "\<exists>res. getTier (tier_threshold (tiers ! i) + 1) tiers luck = Inr res
      \<and> tier res = tier_name (tiers ! (i + 1))"
    using getTier_row [OF assms(1) next_row, of "tier_threshold (tiers ! i) + 1" luck] by simp
next
  assume "tier_threshold (last tiers) < r"
  moreover have "tiers \<noteq> []" using assms(2) by auto
  ultimately show "\<exists>res. getTier r tiers luck = Inr res \<and> tier res = tier_name (last tiers)"
    using getTier_fallback [OF assms(1)] by blast
qed

theorem getTier_resolves_row_witness:
  "sorted_wrt (<) (map tier_threshold [(''Rare'', 10, ()), (''Common'', 20 :: int, ())])
   \<and> (\<exists>res. getTier 7 [(''Rare'', 10, ()), (''Common'', 20, ())] 1 = Inr res \<and> tier res = ''Rare'')
   \<and> (\<exists>res. getTier 10 [(''Rare'', 10, ()), (''Common'', 20, ())] 1 = Inr res \<and> tier res = ''Rare'')
   \<and> (\<exists>res. getTier 11 [(''Rare'', 10, ()), (''Common'', 20, ())] 1 = Inr res \<and> tier res = ''Common'')
   \<and> (\<exists>res. getTier 21 [(''Rare'', 10, ()), (''Common'', 20, ())] 1 = Inr res \<and> tier res = ''Common'')"
proof -
  let ?T = "[(''Rare'', 10 :: int, ()), (''Common'', 20, ())]"
  have s: "sorted_wrt (<) (map tier_threshold ?T)" by (simp add: tier_threshold_def)
  have l: "0 < length ?T" by simp
  note a = getTier_resolves_row [OF s l, of 7 1] and b = getTier_resolves_row [OF s l, of 21 1]
  show ?thesis
    using s a b by (simp add: prevThreshold_def tier_threshold_def tier_name_def)
qed

section \<open>Properties of levelling\<close>

lemma updateLuckMult_player [simp]:
  "player_exp (updateLuckMult g) = player_exp g"
  "player_level (updateLuckMult g) = player_level g"
  by (simp_all add: updateLuckMult_def Let_def)

lemma levelUpLoop_below:
  "levelUpLoop e l n = (e', l', n') \<Longrightarrow> e' < real_of_int (requiredExp l')"
proof (induction e l n rule: levelUpLoop.induct)
  case (1 e level levelsGained)
  show ?case
  proof (cases "real_of_int (requiredExp level) \<le> e")
    case True
    with "1.prems" have "levelUpLoop (e - real_of_int (requiredExp level)) (level + 1) (levelsGained + 1) = (e', l', n')"
      by (subst (asm) levelUpLoop.simps) simp
    with True "1.IH" show ?thesis by blast
  next
    case False
    with "1.prems" have "(e, level, levelsGained) = (e', l', n')"
      by (subst (asm) levelUpLoop.simps) simp
    with False show ?thesis by simp
  qed
qed

lemma levelUpLoop_count:
  "levelUpLoop e l n = (e', l', n') \<Longrightarrow> n \<le> n' \<and> l' = l + (n' - n)"
proof (induction e l n rule: levelUpLoop.induct)
  case (1 e level levelsGained)
  show ?case
  proof (cases "real_of_int (requiredExp level) \<le> e")
    case True
    with "1.prems" have "levelUpLoop (e - real_of_int (requiredExp level)) (level + 1) (levelsGained + 1) = (e', l', n')"
      by (subst (asm) levelUpLoop.simps) simp
    with True "1.IH" have "levelsGained + 1 \<le> n' \<and> l' = level + 1 + (n' - (levelsGained + 1))" by blast
    then show ?thesis by auto
  next
    case False
    with "1.prems" have "(e, level, levelsGained) = (e', l', n')"
      by (subst (asm) levelUpLoop.simps) simp
    then show ?thesis by simp
  qed
qed

lemma requiredExp_1: "requiredExp (Suc 0) = 100"
  by (simp add: requiredExp_def Math_floor_def Math_pow_def)

lemma requiredExp_2_le: "requiredExp 2 \<le> 400"
proof -
  have "(2::real) powr 1.05 \<le> 2 powr 2" by (rule powr_mono) simp_all
  then have "(2::real) powr 1.05 \<le> 4" by simp
  then have "100 * (2::real) powr 1.05 \<le> 400" by simp
  then have "\<lfloor>100 * (2::real) powr 1.05\<rfloor> \<le> 400" by (simp add: floor_le_iff)
  then show ?thesis by (simp add: requiredExp_def Math_floor_def Math_pow_def)
qed

lemma checkLevelUp_fst:
  "levelUpLoop (player_exp g) (player_level g) 0 = (e', l', n') \<Longrightarrow> fst (checkLevelUp g) = n'"
  by (simp add: checkLevelUp_def Let_def)

lemma checkLevelUp_snd:
  "levelUpLoop (player_exp g) (player_level g) 0 = (e', l', n') \<Longrightarrow>
   player_exp (snd (checkLevelUp g)) = e' \<and> player_level (snd (checkLevelUp g)) = l'"
  by (simp add: checkLevelUp_def Let_def)

lemma levelUpLoop_step:
  "real_of_int (requiredExp l) \<le> e \<Longrightarrow>
   levelUpLoop e l n = levelUpLoop (e - real_of_int (requiredExp l)) (Suc l) (Suc n)"
  by (subst levelUpLoop.simps) simp

lemma big_award: "\<exists>e' l' n'. levelUpLoop 1000000 1 0 = (e', l', n') \<and> 1 < n'"
proof -
  have le2: "requiredExp (Suc (Suc 0)) \<le> 400"
    using requiredExp_2_le by (simp add: numeral_2_eq_2)
  have s1: "levelUpLoop 1000000 1 0 =
      levelUpLoop (1000000 - real_of_int (requiredExp 1)) (Suc 1) (Suc 0)"
    by (rule levelUpLoop_step) (simp add: requiredExp_1)
  have s2: "levelUpLoop (1000000 - real_of_int (requiredExp 1)) (Suc 1) (Suc 0) =
      levelUpLoop (1000000 - real_of_int (requiredExp 1) - real_of_int (requiredExp (Suc 1)))
        (Suc (Suc 1)) (Suc (Suc 0))"
    by (rule levelUpLoop_step) (use le2 requiredExp_1 in simp)
  obtain e' l' n' where r: "levelUpLoop (1000000 - real_of_int (requiredExp 1)
      - real_of_int (requiredExp (Suc 1))) (Suc (Suc 1)) (Suc (Suc 0)) = (e', l', n')"
    using prod_cases3 by blast
  then have "Suc (Suc 0) \<le> n'" using levelUpLoop_count by blast
  with s1 s2 r show ?thesis by auto
qed

text \<open>
  Claim C5. After \<open>checkLevelUp\<close> has resolved an experience award the player's experience
  is strictly below \<open>requiredExp\<close> of the player's level, where
  \<open>requiredExp L = \<lfloor>100 * L powr 1.05\<rfloor>\<close>, and the level has grown by the number of levels
  gained. An award of 1000000 at level 1 with experience 0 gains more than one level in
  that one resolution (and, by the first part, leaves the experience below the requirement
  of the final level).
\<close>

theorem checkLevelUp_exp_below_required:
  "player_exp (snd (checkLevelUp g)) < real_of_int (requiredExp (player_level (snd (checkLevelUp g))))
   \<and> player_level (snd (checkLevelUp g)) = player_level g + fst (checkLevelUp g)
   \<and> (player_level g = 1 \<and> player_exp g = 0 \<longrightarrow>
        1 < fst (checkLevelUp (g\<lparr>player_exp := player_exp g + 1000000\<rparr>)))"
proof (intro conjI impI)
  obtain e' l' n' where r: "levelUpLoop (player_exp g) (player_level g) 0 = (e', l', n')"
    by (cases "levelUpLoop (player_exp g) (player_level g) 0") auto
  show "player_exp (snd (checkLevelUp g)) < real_of_int (requiredExp (player_level (snd (checkLevelUp g))))"
    using levelUpLoop_below [OF r] checkLevelUp_snd [OF r] by simp
  show "player_level (snd (checkLevelUp g)) = player_level g + fst (checkLevelUp g)"
    using levelUpLoop_count [OF r] checkLevelUp_snd [OF r] checkLevelUp_fst [OF r] by simp
next
  assume a: "player_level g = 1 \<and> player_exp g = 0"
  obtain e' l' n' where r: "levelUpLoop 1000000 1 0 = (e', l', n')" and n: "1 < n'"
    using big_award by blast
  let ?g = "g\<lparr>player_exp := player_exp g + 1000000\<rparr>"
  have "levelUpLoop (player_exp ?g) (player_level ?g) 0 = (e', l', n')" using a r by simp
  then have "fst (checkLevelUp ?g) = n'" by (rule checkLevelUp_fst)
  with n show "1 < fst (checkLevelUp ?g)" by simp
qed

lemma GameCore_player: "player_level GameCore = 1" "player_exp GameCore = 0"
  by (simp_all add: GameCore_def recalculate_def)

theorem checkLevelUp_exp_below_required_witness:
  "player_level GameCore = 1 \<and> player_exp GameCore = 0
   \<and> 1 < fst (checkLevelUp (GameCore\<lparr>player_exp := player_exp GameCore + 1000000\<rparr>))
   \<and> player_exp (snd (checkLevelUp (GameCore\<lparr>player_exp := player_exp GameCore + 1000000\<rparr>)))
      < real_of_int (requiredExp (player_level
            (snd (checkLevelUp (GameCore\<lparr>player_exp := player_exp GameCore + 1000000\<rparr>)))))"
  using checkLevelUp_exp_below_required [of GameCore]
    checkLevelUp_exp_below_required [of "GameCore\<lparr>player_exp := player_exp GameCore + 1000000\<rparr>"]
    GameCore_player by blast

lemma levelUpLoop_more:
  "0 \<le> b \<Longrightarrow> levelUpLoop e l n = (e', l', n') \<Longrightarrow>
   levelUpLoop (e + b) l n = levelUpLoop (e' + b) l' n'"
proof (induction e l n rule: levelUpLoop.induct)
  case (1 e level levelsGained)
  show ?case
  proof (cases "real_of_int (requiredExp level) \<le> e")
    case True
    with "1.prems" have "levelUpLoop (e - real_of_int (requiredExp level)) (level + 1) (levelsGained + 1) = (e', l', n')"
      by (subst (asm) levelUpLoop.simps) simp
    with True "1.IH" "1.prems"(1)
    have "levelUpLoop (e - real_of_int (requiredExp level) + b) (level + 1) (levelsGained + 1)
        = levelUpLoop (e' + b) l' n'" by blast
    moreover have "levelUpLoop (e + b) level levelsGained
        = levelUpLoop (e + b - real_of_int (requiredExp level)) (Suc level) (Suc levelsGained)"
      using True "1.prems"(1) by (intro levelUpLoop_step) simp
    moreover have "e + b - real_of_int (requiredExp level) = e - real_of_int (requiredExp level) + b"
      by simp
    ultimately show ?thesis by simp
  next
    case False
    with "1.prems" have "(e, level, levelsGained) = (e', l', n')"
      by (subst (asm) levelUpLoop.simps) simp
    then show ?thesis by simp
  qed
qed

lemma levelUpLoop_shift:
  "levelUpLoop e l n = (e', l', n') \<Longrightarrow> levelUpLoop e l (n + k) = (e', l', n' + k)"
proof (induction e l n rule: levelUpLoop.induct)
  case (1 e level levelsGained)
  show ?case
  proof (cases "real_of_int (requiredExp level) \<le> e")
    case True
    with "1.prems" have "levelUpLoop (e - real_of_int (requiredExp level)) (level + 1) (levelsGained + 1) = (e', l', n')"
      by (subst (asm) levelUpLoop.simps) simp
    with True "1.IH"
    have "levelUpLoop (e - real_of_int (requiredExp level)) (level + 1) (levelsGained + 1 + k)
        = (e', l', n' + k)" by blast
    then show ?thesis using True by (subst levelUpLoop.simps) (simp add: ac_simps)
  next
    case False
    with "1.prems" have "(e, level, levelsGained) = (e', l', n')"
      by (subst (asm) levelUpLoop.simps) simp
    with False show ?thesis by (subst levelUpLoop.simps) auto
  qed
qed

section \<open>Properties of the upgrades\<close>

lemma sum_from_shift:
  fixes f :: "nat \<Rightarrow> int"
  shows "(\<Sum>k<Suc n. f (L + k)) = f L + (\<Sum>k<n. f (Suc L + k))"
  by (subst sum.lessThan_Suc_shift) simp

lemma moldTotalCost_sum:
  "moldTotalCost n L acc = acc + (\<Sum>k<n. moldCostAt (L + k))"
proof (induction n arbitrary: L acc)
  case 0 then show ?case by simp
next
  case (Suc n)
  have "(\<Sum>k<Suc n. moldCostAt (L + k)) = moldCostAt L + (\<Sum>k<n. moldCostAt (Suc L + k))"
    by (rule sum_from_shift)
  moreover have "moldTotalCost (Suc n) L acc = moldTotalCost n (Suc L) (acc + moldCostAt L)"
    by (simp add: moldCostAt_def)
  ultimately show ?case using Suc.IH [of "Suc L" "acc + moldCostAt L"] by simp
qed

lemma luckTotalCost_sum:
  "luckTotalCost n L acc = acc + (\<Sum>k<n. luckCostAt (L + k))"
proof (induction n arbitrary: L acc)
  case 0 then show ?case by simp
next
  case (Suc n)
  have "(\<Sum>k<Suc n. luckCostAt (L + k)) = luckCostAt L + (\<Sum>k<n. luckCostAt (Suc L + k))"
    by (rule sum_from_shift)
  moreover have "luckTotalCost (Suc n) L acc = luckTotalCost n (Suc L) (acc + luckCostAt L)"
    by (simp add: luckCostAt_def)
  ultimately show ?case using Suc.IH [of "Suc L" "acc + luckCostAt L"] by simp
qed

lemma moldBuy_effect:
  "mold_level (moldBuy n g) = mold_level g + n
   \<and> money (moldBuy n g) = money g - (if n = 0 then 0 else
        real_of_int (mold_cost g) + real_of_int (\<Sum>k<n - 1. moldCostAt (mold_level g + 1 + k)))
   \<and> mold_cost (moldBuy n g) = (if n = 0 then mold_cost g else moldCostAt (mold_level g + n))"
proof (induction n arbitrary: g)
  case 0 then show ?case by simp
next
  case (Suc n)
  let ?g = "g\<lparr>mold_level := mold_level g + 1, money := money g - real_of_int (mold_cost g),
       mold_cost := moldCostAt (mold_level g + 1)\<rparr>"
  have step: "moldBuy (Suc n) g = moldBuy n ?g"
    by (simp add: Let_def moldCostAt_def)
  show ?case
  proof (cases n)
    case 0 then show ?thesis unfolding step by simp
  next
    case (Suc m)
    have "(\<Sum>k<Suc m. moldCostAt (Suc (mold_level g) + k))
        = moldCostAt (Suc (mold_level g)) + (\<Sum>k<m. moldCostAt (Suc (Suc (mold_level g)) + k))"
      by (rule sum_from_shift)
    then show ?thesis unfolding step using Suc.IH [of ?g] Suc
      by (simp del: sum.lessThan_Suc)
  qed
qed

lemma luckBuy_effect:
  "luck_level (luckBuy n g) = luck_level g + n
   \<and> money (luckBuy n g) = money g - (if n = 0 then 0 else
        real_of_int (luck_cost g) + real_of_int (\<Sum>k<n - 1. luckCostAt (luck_level g + 1 + k)))
   \<and> luck_cost (luckBuy n g) = (if n = 0 then luck_cost g else luckCostAt (luck_level g + n))"
proof (induction n arbitrary: g)
  case 0 then show ?case by simp
next
  case (Suc n)
  let ?g = "g\<lparr>luck_level := luck_level g + 1, money := money g - real_of_int (luck_cost g),
       luck_cost := luckCostAt (luck_level g + 1)\<rparr>"
  have step: "luckBuy (Suc n) g = luckBuy n ?g"
    by (simp add: Let_def luckCostAt_def)
  show ?case
  proof (cases n)
    case 0 then show ?thesis unfolding step by simp
  next
    case (Suc m)
    have "(\<Sum>k<Suc m. luckCostAt (Suc (luck_level g) + k))
        = luckCostAt (Suc (luck_level g)) + (\<Sum>k<m. luckCostAt (Suc (Suc (luck_level g)) + k))"
      by (rule sum_from_shift)
    then show ?thesis unfolding step using Suc.IH [of ?g] Suc
      by (simp del: sum.lessThan_Suc)
  qed
qed

lemma updateLuckMult_money [simp]:
  "money (updateLuckMult g) = money g" "mold_level (updateLuckMult g) = mold_level g"
  "luck_level (updateLuckMult g) = luck_level g" "mold_cost (updateLuckMult g) = mold_cost g"
  "luck_cost (updateLuckMult g) = luck_cost g"
  by (simp_all add: updateLuckMult_def Let_def)

lemma upgradeMold_charges_sum:
  assumes "mold_cost g = moldCostAt (mold_level g)" and "success (fst (upgradeMold amount g))"
  shows "money (snd (upgradeMold amount g))
       = money g - real_of_int (\<Sum>k<nat amount. moldCostAt (mold_level g + k))"
proof -
  from assms(2) have pos: "0 < amount"
    by (auto simp: upgradeMold_def split: if_splits)
  then obtain n where n: "nat amount = Suc n" by (cases "nat amount") auto
  from assms(2) pos have "snd (upgradeMold amount g) = updateLuckMult (moldBuy (nat amount) g)"
    by (auto simp: upgradeMold_def Let_def split: if_splits)
  moreover have "(\<Sum>k<Suc n. moldCostAt (mold_level g + k))
      = moldCostAt (mold_level g) + (\<Sum>k<n. moldCostAt (Suc (mold_level g) + k))"
    by (rule sum_from_shift)
  ultimately show ?thesis using moldBuy_effect [of "Suc n" g] assms(1) n
    by (simp del: sum.lessThan_Suc)
qed

lemma powr_rat_bounds:
  fixes x lo hi :: real
  assumes "0 < x" "0 < hi" "0 < q" "lo ^ q \<le> x ^ p" "x ^ p < hi ^ q"
  shows "lo \<le> x powr (real p / real q) \<and> x powr (real p / real q) < hi"
proof -
  let ?y = "x powr (real p / real q)"
  have ypos: "0 < ?y" using assms(1) by simp
  have "?y ^ q = ?y powr real q" using ypos by (simp add: powr_realpow)
  also have "\<dots> = x powr real p" using assms(3) by (simp add: powr_powr)
  also have "\<dots> = x ^ p" using assms(1) by (simp add: powr_realpow)
  finally have yq: "?y ^ q = x ^ p" .
  have "lo \<le> ?y"
  proof (rule ccontr)
    assume "\<not> lo \<le> ?y"
    then have "?y < lo" by simp
    then have "?y ^ q < lo ^ q" using ypos assms(3) by (intro power_strict_mono) simp_all
    with yq assms(4) show False by simp
  qed
  moreover have "?y < hi"
  proof (rule ccontr)
    assume "\<not> ?y < hi"
    then have "hi \<le> ?y" by simp
    then have "hi ^ q \<le> ?y ^ q" using assms(2) by (intro power_mono) simp_all
    with yq assms(5) show False by simp
  qed
  ultimately show ?thesis by simp
qed

lemma Math_round_eq:
  "real_of_int n - 1 / 2 \<le> x \<Longrightarrow> x < real_of_int n + 1 / 2 \<Longrightarrow> Math_round x = n"
  unfolding Math_round_def by (rule floor_unique) simp_all

lemma round_2_powr_21: "Math_round (Math_pow 2 (21 / 10)) = 4"
proof -
  have "(3.5::real) \<le> 2 powr (real 21 / real 10) \<and> 2 powr (real 21 / real 10) < (4.5::real)"
    by (rule powr_rat_bounds) (simp_all add: power_divide divide_le_eq less_divide_eq)
  then show ?thesis unfolding Math_pow_def by (intro Math_round_eq) simp_all
qed

lemma round_3_powr_21: "Math_round (Math_pow 3 (21 / 10)) = 10"
proof -
  have "(9.5::real) \<le> 3 powr (real 21 / real 10) \<and> 3 powr (real 21 / real 10) < (10.5::real)"
    by (rule powr_rat_bounds) (simp_all add: power_divide divide_le_eq less_divide_eq)
  then show ?thesis unfolding Math_pow_def by (intro Math_round_eq) simp_all
qed

lemma round_2_powr_24: "Math_round (Math_pow 2 (12 / 5)) = 5"
proof -
  have "(4.5::real) \<le> 2 powr (real 12 / real 5) \<and> 2 powr (real 12 / real 5) < (5.5::real)"
    by (rule powr_rat_bounds) (simp_all add: power_divide divide_le_eq less_divide_eq)
  then show ?thesis unfolding Math_pow_def by (intro Math_round_eq) simp_all
qed

lemma round_3_powr_24: "Math_round (Math_pow 3 (12 / 5)) = 14"
proof -
  have "(13.5::real) \<le> 3 powr (real 12 / real 5) \<and> 3 powr (real 12 / real 5) < (14.5::real)"
    by (rule powr_rat_bounds) (simp_all add: power_divide divide_le_eq less_divide_eq)
  then show ?thesis unfolding Math_pow_def by (intro Math_round_eq) simp_all
qed

lemma round_1_powr: "Math_round (Math_pow 1 y) = 1"
  by (simp add: Math_round_def Math_pow_def)

lemma luckCostAt_values:
  "luckCostAt (Suc 0) = 5" "luckCostAt (Suc (Suc 0)) = 8" "luckCostAt (Suc (Suc (Suc 0))) = 14"
  by (simp_all add: luckCostAt_def round_1_powr round_2_powr_21 round_3_powr_21)

lemma luckCostRecalculated_values:
  "luckCostRecalculated (Suc 0) = 6" "luckCostRecalculated (Suc (Suc 0)) = 10"
  "luckCostRecalculated (Suc (Suc (Suc 0))) = 19"
  by (simp_all add: luckCostRecalculated_def round_1_powr round_2_powr_24 round_3_powr_24)

lemma GameCore_luck: "luck_level GameCore = Suc 0" "luck_cost GameCore = 6" "money GameCore = 0"
  by (simp_all add: GameCore_def recalculate_def round_1_powr)

lemma sum3:
  fixes f :: "nat \<Rightarrow> int" and L :: nat
  shows "(\<Sum>k<3. f (L + k)) = f L + f (L + 1) + f (L + 2)"
  by (simp add: eval_nat_numeral)

text \<open>
  Claim C1. A successful purchase of \<open>n\<close> upgrades from level \<open>L\<close> should deduct
  \<open>cost L + \<dots> + cost (L + n - 1)\<close> on both tracks; with \<open>n = 3\<close> that is
  \<open>cost L + cost (L + 1) + cost (L + 2)\<close>. The mold track does so
  (\<open>upgradeMold_charges_sum\<close>). The luck track does not: \<open>upgradeLuck\<close> checks money against
  the sum of \<open>luckCostAt\<close>, and then deducts the stored \<open>luck_cost\<close> first, which
  \<open>recalculate\<close> has set from the other expression. On a new game with 100 money a purchase
  of 3 deducts 28, while the costs of levels 1, 2, 3 add up to 27 by the expression of
  \<open>upgradeLuck\<close> and to 35 by the expression of \<open>recalculate\<close>; with 5 money a purchase of 1
  passes the check against 5, deducts 6 and leaves money at -1.
\<close>

theorem upgradeLuck_charge_differs:
  "success (fst (upgradeLuck 3 (GameCore\<lparr>money := 100\<rparr>)))
   \<and> money (GameCore\<lparr>money := 100\<rparr>) - money (snd (upgradeLuck 3 (GameCore\<lparr>money := 100\<rparr>))) = 28
   \<and> luckCostAt 1 + luckCostAt 2 + luckCostAt 3 = 27
   \<and> luckCostRecalculated 1 + luckCostRecalculated 2 + luckCostRecalculated 3 = 35
   \<and> success (fst (upgradeLuck 1 (GameCore\<lparr>money := 5\<rparr>)))
   \<and> money (snd (upgradeLuck 1 (GameCore\<lparr>money := 5\<rparr>))) = - 1"
proof -
  let ?g = "GameCore\<lparr>money := 100\<rparr>"
  have tot: "luckTotalCost 3 (luck_level ?g) 0 = 27"
    by (simp add: GameCore_luck eval_nat_numeral round_1_powr round_2_powr_21 round_3_powr_21)
  have u: "upgradeLuck 3 ?g = (\<lparr>success = True, message = UpgradedTimes 3\<rparr>,
      updateLuckMult (luckBuy 3 ?g))"
    using tot by (simp add: upgradeLuck_def Let_def)
  have "money (luckBuy 3 ?g) = 100 - (6 + real_of_int (luckCostAt 2 + luckCostAt 3))"
    using luckBuy_effect [of 3 ?g] by (simp add: GameCore_luck eval_nat_numeral)
  then have m: "money (luckBuy 3 ?g) = 72"
    using luckCostAt_values by (simp add: eval_nat_numeral)
  let ?h = "GameCore\<lparr>money := 5\<rparr>"
  have tot1: "luckTotalCost 1 (luck_level ?h) 0 = 5"
    by (simp add: GameCore_luck round_1_powr)
  have u1: "upgradeLuck 1 ?h = (\<lparr>success = True, message = UpgradedTimes 1\<rparr>,
      updateLuckMult (luckBuy 1 ?h))"
    using tot1 by (simp add: upgradeLuck_def Let_def)
  have m1: "money (luckBuy 1 ?h) = - 1"
    using luckBuy_effect [of 1 ?h] by (simp add: GameCore_luck)
  show ?thesis
    using u m u1 m1 luckCostAt_values luckCostRecalculated_values
    by (simp add: eval_nat_numeral)
qed

lemma GameCore_mold: "mold_level GameCore = Suc 0" "mold_cost GameCore = 4"
  by (simp_all add: GameCore_def recalculate_def round_1_powr)

lemma upgrade_failure_returns_unchanged:
  "(amount \<le> 0 \<or> money g < real_of_int (\<Sum>k<nat amount. moldCostAt (mold_level g + k)) \<longrightarrow>
      \<not> success (fst (upgradeMold amount g)) \<and> snd (upgradeMold amount g) = g)
   \<and> (amount \<le> 0 \<or> money g < real_of_int (\<Sum>k<nat amount. luckCostAt (luck_level g + k)) \<longrightarrow>
      \<not> success (fst (upgradeLuck amount g)) \<and> snd (upgradeLuck amount g) = g)
   \<and> (\<not> success (fst (upgradeMold amount g)) \<longrightarrow> snd (upgradeMold amount g) = g)
   \<and> (\<not> success (fst (upgradeLuck amount g)) \<longrightarrow> snd (upgradeLuck amount g) = g)"
  by (simp add: upgradeMold_def upgradeLuck_def moldTotalCost_sum luckTotalCost_sum Let_def)

text \<open>
  Claim C8. An upgrade purchase whose count is not positive or whose total cost exceeds the
  money should report failure and change nothing. Every failure result does leave the
  object unchanged (\<open>upgrade_failure_returns_unchanged\<close>), and the mold track charges what
  it checks (\<open>upgradeMold_charges_sum\<close>). On the luck track a purchase that costs more than
  the money is not refused: the check compares the money with the sum of \<open>luckCostAt\<close>,
  and the purchase then deducts the stored \<open>luck_cost\<close> first. On a new game with 5 money
  a purchase of 1, which costs 6, succeeds, raises the luck level to 2 and leaves the money
  at -1; with 27 money a purchase of 3, which costs 28, succeeds in the same way.
\<close>

theorem upgradeLuck_unaffordable_succeeds:
  "luck_cost (GameCore\<lparr>money := 5\<rparr>) = 6
   \<and> money (GameCore\<lparr>money := 5\<rparr>) < real_of_int (luck_cost (GameCore\<lparr>money := 5\<rparr>))
   \<and> success (fst (upgradeLuck 1 (GameCore\<lparr>money := 5\<rparr>)))
   \<and> luck_level (snd (upgradeLuck 1 (GameCore\<lparr>money := 5\<rparr>))) = 2
   \<and> money (snd (upgradeLuck 1 (GameCore\<lparr>money := 5\<rparr>))) = - 1
   \<and> success (fst (upgradeLuck 3 (GameCore\<lparr>money := 27\<rparr>)))
   \<and> luck_level (snd (upgradeLuck 3 (GameCore\<lparr>money := 27\<rparr>))) = 4
   \<and> money (snd (upgradeLuck 3 (GameCore\<lparr>money := 27\<rparr>))) = - 1"
proof -
  let ?h = "GameCore\<lparr>money := 5\<rparr>"
  have tot1: "luckTotalCost 1 (luck_level ?h) 0 = 5"
    by (simp add: GameCore_luck round_1_powr)
  have u1: "upgradeLuck 1 ?h = (\<lparr>success = True, message = UpgradedTimes 1\<rparr>,
      updateLuckMult (luckBuy 1 ?h))"
    using tot1 by (simp add: upgradeLuck_def Let_def)
  have b1: "money (luckBuy 1 ?h) = - 1" "luck_level (luckBuy 1 ?h) = 2"
    using luckBuy_effect [of 1 ?h] by (simp_all add: GameCore_luck)
  let ?g = "GameCore\<lparr>money := 27\<rparr>"
  have tot3: "luckTotalCost 3 (luck_level ?g) 0 = 27"
    by (simp add: GameCore_luck eval_nat_numeral round_1_powr round_2_powr_21 round_3_powr_21)
  have u3: "upgradeLuck 3 ?g = (\<lparr>success = True, message = UpgradedTimes 3\<rparr>,
      updateLuckMult (luckBuy 3 ?g))"
    using tot3 by (simp add: upgradeLuck_def Let_def)
  have "money (luckBuy 3 ?g) = 27 - (6 + real_of_int (luckCostAt 2 + luckCostAt 3))"
    "luck_level (luckBuy 3 ?g) = 4"
    using luckBuy_effect [of 3 ?g] by (simp_all add: GameCore_luck eval_nat_numeral)
  then have b3: "money (luckBuy 3 ?g) = - 1" "luck_level (luckBuy 3 ?g) = 4"
    using luckCostAt_values by (simp_all add: eval_nat_numeral)
  show ?thesis
    using u1 b1 u3 b3 by (simp add: GameCore_luck)
qed

section \<open>Properties of combat\<close>

lemma damageTaken_cases:
  "damageTaken en w =
    (if Defense w \<noteq> 0 then Fin (max 0 (real_of_int \<lfloor>damage en / Defense w\<rfloor>))
     else if damage en > 0 then PosInf
     else if damage en < 0 then Fin 0
     else NaN)"
  by (simp add: damageTaken_def js_div_def)

lemma damageTaken_not_NegInf: "damageTaken en w \<noteq> NegInf"
  by (simp add: damageTaken_cases)

lemma damageTaken_Fin_nonneg: "damageTaken en w = Fin t \<Longrightarrow> 0 \<le> t"
  by (auto simp: damageTaken_cases split: if_splits)

lemma combatLoop_returns:
  assumes dmg: "1 \<le> \<lfloor>Damage w\<rfloor>"
  shows "\<exists>out. combatLoop w en playerHealth enemyHealth = Some out"
proof (induction "nat \<lceil>enemyHealth\<rceil>" arbitrary: playerHealth enemyHealth rule: less_induct)
  case less
  let ?d = "real_of_int (Math_floor (Damage w))"
  have d1: "1 \<le> ?d" using dmg by (simp add: Math_floor_def)
  show ?case
  proof (cases "js_gt0 playerHealth \<and> enemyHealth > 0")
    case False
    then show ?thesis by (subst combatLoop.simps) auto
  next
    case enter: True
    show ?thesis
    proof (cases "enemyHealth - ?d \<le> 0")
      case True
      with enter show ?thesis by (subst combatLoop.simps) simp
    next
      case alive: False
      show ?thesis
      proof (cases "js_le0 (js_sub playerHealth (damageTaken en w))")
        case True
        with enter alive show ?thesis by (subst combatLoop.simps) simp
      next
        case False
        have "\<lceil>enemyHealth - ?d\<rceil> = \<lceil>enemyHealth\<rceil> - Math_floor (Damage w)" by simp
        moreover have "0 < \<lceil>enemyHealth\<rceil>" using enter by simp
        moreover have "1 \<le> Math_floor (Damage w)" using dmg by (simp add: Math_floor_def)
        ultimately have "nat \<lceil>enemyHealth - ?d\<rceil> < nat \<lceil>enemyHealth\<rceil>" by linarith
        from less [OF this] obtain out where
          "combatLoop w en (js_sub playerHealth (damageTaken en w)) (enemyHealth - ?d) = Some out"
          by blast
        with enter alive False show ?thesis by (subst combatLoop.simps) simp
      qed
    qed
  qed
qed

lemma combatLoop_exit_aux:
  "combatLoop w en playerHealth enemyHealth = Some out \<Longrightarrow>
   damageTaken en w \<noteq> NaN \<longrightarrow>
     (\<forall>p. playerHealth = Fin p \<and> 0 < p \<and> 0 < enemyHealth \<longrightarrow> out \<noteq> LoopEnded)"
proof (induction w en playerHealth enemyHealth out
    rule: combatLoop.raw_induct [rotated 1, consumes 1, case_names step])
  case (step f w en playerHealth enemyHealth out)
  note IH = step(1) and body = step(2)
  let ?d = "real_of_int (Math_floor (Damage w))"
  show ?case
  proof (intro impI allI)
    fix p
    assume nan: "damageTaken en w \<noteq> NaN"
      and inv: "playerHealth = Fin p \<and> 0 < p \<and> 0 < enemyHealth"
    then have enter: "js_gt0 playerHealth \<and> 0 < enemyHealth" by simp
    show "out \<noteq> LoopEnded"
    proof (cases "enemyHealth - ?d \<le> 0")
      case True
      with body enter show ?thesis by auto
    next
      case alive: False
      show ?thesis
      proof (cases "js_le0 (js_sub playerHealth (damageTaken en w))")
        case True
        with body enter alive show ?thesis by auto
      next
        case False
        with body enter alive
        have rec: "f w en (js_sub playerHealth (damageTaken en w)) (enemyHealth - ?d) = Some out"
          by simp
        obtain t where t: "damageTaken en w = Fin t"
          using nan damageTaken_not_NegInf [of en w] False inv
          by (cases "damageTaken en w") auto
        then have "js_sub playerHealth (damageTaken en w) = Fin (p - t)" "0 < p - t"
          using False inv by auto
        with IH [OF rec] nan alive show ?thesis by auto
      qed
    qed
  qed
qed

lemma combatLoop_exit:
  assumes "combatLoop w en (Fin p) enemyHealth = Some out"
    and "damageTaken en w \<noteq> NaN" "0 < p" "0 < enemyHealth"
  shows "out \<noteq> LoopEnded"
  using combatLoop_exit_aux [OF assms(1)] assms(2-) by blast

lemma combatLoop_diverges_aux:
  "combatLoop w en playerHealth enemyHealth = Some out \<Longrightarrow>
   \<not> (\<lfloor>Damage w\<rfloor> \<le> 0 \<and> damageTaken en w = Fin 0
       \<and> (\<exists>p. playerHealth = Fin p \<and> 0 < p) \<and> 0 < enemyHealth)"
proof (induction w en playerHealth enemyHealth out
    rule: combatLoop.raw_induct [rotated 1, consumes 1, case_names step])
  case (step f w en playerHealth enemyHealth out)
  note IH = step(1) and body = step(2)
  show ?case
  proof
    assume inv: "\<lfloor>Damage w\<rfloor> \<le> 0 \<and> damageTaken en w = Fin 0
            \<and> (\<exists>p. playerHealth = Fin p \<and> 0 < p) \<and> 0 < enemyHealth"
    then obtain p where p: "playerHealth = Fin p" "0 < p" by blast
    let ?d = "real_of_int (Math_floor (Damage w))"
    have d: "?d \<le> 0" using inv by (simp add: Math_floor_def)
    then have alive: "0 < enemyHealth - ?d" using inv by linarith
    have same: "js_sub playerHealth (damageTaken en w) = Fin p" using inv p by simp
    from body inv p alive same
    have rec: "f w en (Fin p) (enemyHealth - ?d) = Some out" by simp
    from IH [OF rec] inv p alive show False by simp
  qed
qed

lemma combatLoop_diverges:
  assumes "\<lfloor>Damage w\<rfloor> \<le> 0" "damageTaken en w = Fin 0" "0 < p" "0 < enemyHealth"
  shows "combatLoop w en (Fin p) enemyHealth = None"
proof (cases "combatLoop w en (Fin p) enemyHealth")
  case None then show ?thesis .
next
  case (Some out)
  from combatLoop_diverges_aux [OF Some] assms show ?thesis by simp
qed

text \<open>
  Claim C10. For an enemy with positive health and an equipped weapon with
  \<open>\<lfloor>Damage\<rfloor> \<ge> 1\<close> the combat loop of \<open>fightEnemy\<close> terminates, so \<open>fightEnemy\<close> returns: the
  enemy's health falls by \<open>\<lfloor>Damage\<rfloor>\<close> in every turn. The loop leaves through the victory or
  the defeat \<^verbatim>\<open>return\<close>, unless the damage taken is \<^verbatim>\<open>NaN\<close>, when the statement after the
  loop reports \<^verbatim>\<open>victory: false\<close>. Without the precondition, with \<open>\<lfloor>Damage\<rfloor> \<le> 0\<close> and a
  damage taken of 0 per turn, the loop does not terminate.
\<close>

theorem fightEnemy_terminates_iff_damage:
  "(1 \<le> \<lfloor>Damage w\<rfloor> \<and> 0 < health en \<longrightarrow>
      (\<exists>out. combatLoop w en (Fin 100) (health en) = Some out
             \<and> (damageTaken en w \<noteq> NaN \<longrightarrow> out = EnemyDead \<or> out = PlayerDead))
      \<and> (player_equipped g = Some w \<longrightarrow>
           (\<exists>res g'. fightEnemy areaName en dropItems rndWeapon rndMold g = Some (res, g'))))
   \<and> (\<lfloor>Damage w\<rfloor> \<le> 0 \<and> damageTaken en w = Fin 0 \<and> 0 < health en \<longrightarrow>
      combatLoop w en (Fin 100) (health en) = None
      \<and> (player_equipped g = Some w \<longrightarrow>
           fightEnemy areaName en dropItems rndWeapon rndMold g = None))"
proof (intro conjI impI)
  assume a: "1 \<le> \<lfloor>Damage w\<rfloor> \<and> 0 < health en"
  then obtain out where out: "combatLoop w en (Fin 100) (health en) = Some out"
    using combatLoop_returns by blast
  have "out \<noteq> LoopEnded" if "damageTaken en w \<noteq> NaN"
    using combatLoop_exit [OF out that] a by simp
  then show "\<exists>out. combatLoop w en (Fin 100) (health en) = Some out
             \<and> (damageTaken en w \<noteq> NaN \<longrightarrow> out = EnemyDead \<or> out = PlayerDead)"
    using out by (cases out) auto
  assume "player_equipped g = Some w"
  with out show "\<exists>res g'. fightEnemy areaName en dropItems rndWeapon rndMold g = Some (res, g')"
    by (cases out; cases "fightVictory areaName en rndWeapon rndMold g")
       (simp_all add: fightEnemy_def)
next
  assume a: "\<lfloor>Damage w\<rfloor> \<le> 0 \<and> damageTaken en w = Fin 0 \<and> 0 < health en"
  then show n: "combatLoop w en (Fin 100) (health en) = None"
    using combatLoop_diverges [of w en 100 "health en"] by simp
  assume "player_equipped g = Some w"
  with n show "fightEnemy areaName en dropItems rndWeapon rndMold g = None"
    by (simp add: fightEnemy_def)
qed

theorem fightEnemy_terminates_iff_damage_witness:
  "1 \<le> \<lfloor>Damage zenithSword\<rfloor> \<and> 0 < health commonEnemy
   \<and> (\<exists>out. combatLoop zenithSword commonEnemy (Fin 100) (health commonEnemy) = Some out)
   \<and> \<lfloor>Damage (zenithSword\<lparr>Damage := 0\<rparr>)\<rfloor> \<le> 0
   \<and> damageTaken commonEnemy (zenithSword\<lparr>Damage := 0\<rparr>) = Fin 0
   \<and> combatLoop (zenithSword\<lparr>Damage := 0\<rparr>) commonEnemy (Fin 100) (health commonEnemy) = None
   \<and> fightEnemy ''Beginner Hall'' commonEnemy False 0 0
        (GameCore\<lparr>player_equipped := Some (zenithSword\<lparr>Damage := 0\<rparr>)\<rparr>) = None"
proof -
  have a: "1 \<le> \<lfloor>Damage zenithSword\<rfloor> \<and> 0 < health commonEnemy"
    by (simp add: zenithSword_def commonEnemy_def)
  have b: "\<lfloor>Damage (zenithSword\<lparr>Damage := 0\<rparr>)\<rfloor> \<le> 0
      \<and> damageTaken commonEnemy (zenithSword\<lparr>Damage := 0\<rparr>) = Fin 0
      \<and> 0 < health commonEnemy"
    by (simp add: zenithSword_def commonEnemy_def damageTaken_cases)
  show ?thesis
    using a b
      fightEnemy_terminates_iff_damage [of zenithSword commonEnemy GameCore
        "''Beginner Hall''" False 0 0]
      fightEnemy_terminates_iff_damage [of "zenithSword\<lparr>Damage := 0\<rparr>" commonEnemy
        "GameCore\<lparr>player_equipped := Some (zenithSword\<lparr>Damage := 0\<rparr>)\<rparr>"
        "''Beginner Hall''" False 0 0]
    by auto
qed

text \<open>
  Claim C2, as amended. The damage the player takes in a turn is
  \<open>max 0 \<lfloor>enemy.damage / weapon.Defense\<rfloor>\<close> with no guard on the defense. For a defense other
  than 0 it is a non-negative integer. A defense of 0 is not treated as a defense of at
  least 1: the division raises no exception and yields \<^verbatim>\<open>Infinity\<close> for a positive enemy
  damage, so that the player is defeated in the first turn the enemy survives, and
  \<^verbatim>\<open>NaN\<close> for an enemy damage of 0.
\<close>

theorem damageTaken_unguarded:
  "(Defense w \<noteq> 0 \<longrightarrow>
      damageTaken en w = Fin (max 0 (real_of_int \<lfloor>damage en / Defense w\<rfloor>))
      \<and> (\<exists>n::nat. damageTaken en w = Fin (real n)))
   \<and> (Defense w = 0 \<and> 0 < damage en \<longrightarrow>
      damageTaken en w = PosInf
      \<and> (0 < health en \<and> real_of_int \<lfloor>Damage w\<rfloor> < health en \<longrightarrow>
           combatLoop w en (Fin 100) (health en) = Some PlayerDead))
   \<and> (Defense w = 0 \<and> damage en = 0 \<longrightarrow> damageTaken en w = NaN)"
proof (intro conjI impI)
  assume d: "Defense w \<noteq> 0"
  then show v: "damageTaken en w = Fin (max 0 (real_of_int \<lfloor>damage en / Defense w\<rfloor>))"
    by (simp add: damageTaken_cases)
  have "max 0 (real_of_int \<lfloor>damage en / Defense w\<rfloor>)
      = real (nat (max 0 \<lfloor>damage en / Defense w\<rfloor>))"
    by (simp add: max_def)
  with v show "\<exists>n::nat. damageTaken en w = Fin (real n)" by metis
next
  assume z: "Defense w = 0 \<and> 0 < damage en"
  then show inf: "damageTaken en w = PosInf" by (simp add: damageTaken_cases)
  assume "0 < health en \<and> real_of_int \<lfloor>Damage w\<rfloor> < health en"
  then show "combatLoop w en (Fin 100) (health en) = Some PlayerDead"
    using inf by (subst combatLoop.simps) (simp add: Math_floor_def)
next
  assume "Defense w = 0 \<and> damage en = 0"
  then show "damageTaken en w = NaN" by (simp add: damageTaken_cases)
qed

text \<open>
  The claim as stated fails: with a defense of 0 the damage taken from \<open>commonEnemy\<close> is
  \<^verbatim>\<open>Infinity\<close>, not the 5 that a defense of 1 gives.
\<close>

theorem damageTaken_defense_zero_counterexample:
  "damageTaken commonEnemy (zenithSword\<lparr>Defense := 0\<rparr>) = PosInf
   \<and> damageTaken commonEnemy (zenithSword\<lparr>Defense := 1\<rparr>) = Fin 5"
  by (simp add: damageTaken_cases commonEnemy_def zenithSword_def)

theorem damageTaken_unguarded_witness:
  "Defense zenithSword \<noteq> 0 \<and> damageTaken commonEnemy zenithSword = Fin 0
   \<and> Defense (zenithSword\<lparr>Defense := 0\<rparr>) = 0 \<and> 0 < damage commonEnemy
   \<and> damageTaken commonEnemy (zenithSword\<lparr>Defense := 0\<rparr>) = PosInf
   \<and> combatLoop (zenithSword\<lparr>Damage := 4, Defense := 0\<rparr>) commonEnemy (Fin 100)
         (health commonEnemy) = Some PlayerDead
   \<and> damageTaken (commonEnemy\<lparr>damage := 0\<rparr>) (zenithSword\<lparr>Defense := 0\<rparr>) = NaN"
  using damageTaken_unguarded [of zenithSword commonEnemy]
    damageTaken_unguarded [of "zenithSword\<lparr>Defense := 0\<rparr>" commonEnemy]
    damageTaken_unguarded [of "zenithSword\<lparr>Damage := 4, Defense := 0\<rparr>" commonEnemy]
    damageTaken_unguarded [of "zenithSword\<lparr>Defense := 0\<rparr>" "commonEnemy\<lparr>damage := 0\<rparr>"]
  by (simp add: commonEnemy_def zenithSword_def damageTaken_cases)

lemma checkLevelUp_keeps [simp]:
  "money (snd (checkLevelUp g)) = money g"
  "spawned_enemies (snd (checkLevelUp g)) = spawned_enemies g"
  "item_storage (snd (checkLevelUp g)) = item_storage g"
  "sell_area (snd (checkLevelUp g)) = sell_area g"
  "recycled_ids (snd (checkLevelUp g)) = recycled_ids g"
  by (simp_all add: checkLevelUp_def updateLuckMult_def Let_def split: prod.splits)

lemma nextItemId_keeps:
  "nextItemId g = (i, g1) \<Longrightarrow>
   money g1 = money g \<and> player_exp g1 = player_exp g \<and> player_level g1 = player_level g
   \<and> spawned_enemies g1 = spawned_enemies g \<and> item_storage g1 = item_storage g"
  by (auto simp: nextItemId_def split: if_splits)

lemma enemyLoot_keeps:
  assumes "enemyLoot g en rndWeapon rndMold = Inr (d, g1)"
  shows "money g1 = money g \<and> player_exp g1 = player_exp g \<and> player_level g1 = player_level g
   \<and> spawned_enemies g1 = spawned_enemies g \<and> item_storage g1 = item_storage g"
proof -
  from assms obtain i where "nextItemId g = (i, g1)"
    by (auto simp: enemyLoot_def Let_def split: option.splits sum.splits prod.splits)
  then show ?thesis by (rule nextItemId_keeps)
qed

lemma GameCore_spawned:
  "spawned_enemies GameCore ''Beginner Hall'' = Some []"
  by (simp add: GameCore_def recalculate_def updateLuckMult_def Let_def AREAS_def)

lemma GameCore_money: "money GameCore = 0"
  by (simp add: GameCore_def recalculate_def)

lemma levelUpLoop_stay:
  "e < real_of_int (requiredExp l) \<Longrightarrow> levelUpLoop e l n = (e, l, n)"
  by (subst levelUpLoop.simps) simp

lemma combatLoop_first_hit:
  "0 < enemyHealth \<Longrightarrow> 0 < p \<Longrightarrow> enemyHealth \<le> real_of_int \<lfloor>Damage w\<rfloor> \<Longrightarrow>
   combatLoop w en (Fin p) enemyHealth = Some EnemyDead"
  by (subst combatLoop.simps) (simp add: Math_floor_def)

lemma fightVictory_plain:
  assumes "checkLevelUp (g\<lparr>money := money g + cash en,
                            player_exp := player_exp g + exp_reward en\<rparr>) = (lg, g3)"
    and "spawned_enemies g3 areaName = Some enemies"
    and "findIndex (\<lambda>e. ref e = ref en) enemies = None"
    and "\<not> (Elite en \<or> areaName = ''Champions Hall'')"
  shows "fightVictory areaName en rndWeapon rndMold g
      = (Inr (Victory (exp_reward en) (cash en) lg None), g3)"
  using assms by (simp add: fightVictory_def Let_def)

lemma sweptGame_fight:
  "spawned_enemies sweptGame ''Beginner Hall'' = Some []
   \<and> fightEnemy ''Beginner Hall'' commonEnemy False 0 0 sweptGame
     = Some (Inr (Victory 20 50 0 None), sweptGame\<lparr>money := 50, player_exp := 20\<rparr>)"
proof -
  let ?sp = "removeExpiredEnemies 1180
      ((spawned_enemies GameCore)(''Beginner Hall'' \<mapsto> [commonEnemy]))"
  let ?g = "GameCore\<lparr>player_equipped := Some zenithSword, spawned_enemies := ?sp\<rparr>"
  have sp: "?sp ''Beginner Hall'' = Some []"
    by (simp add: removeExpiredEnemies_def commonEnemy_def)
  have loop: "combatLoop zenithSword commonEnemy (Fin 100) (health commonEnemy) = Some EnemyDead"
    by (rule combatLoop_first_hit) (simp_all add: commonEnemy_def zenithSword_def)
  let ?g2 = "?g\<lparr>money := money ?g + cash commonEnemy,
                 player_exp := player_exp ?g + exp_reward commonEnemy\<rparr>"
  have "levelUpLoop (player_exp ?g2) (player_level ?g2) 0 = (20, Suc 0, 0)"
    by (simp add: GameCore_player commonEnemy_def levelUpLoop_stay requiredExp_1)
  then have lvl: "checkLevelUp ?g2 = (0, ?g2\<lparr>player_exp := 20, player_level := Suc 0\<rparr>)"
    by (simp add: checkLevelUp_def)
  have same: "?g2\<lparr>player_exp := 20, player_level := Suc 0\<rparr>
      = ?g\<lparr>money := 50, player_exp := 20\<rparr>"
    using GameCore_player GameCore_money by (simp add: commonEnemy_def)
  have lvl': "checkLevelUp ?g2 = (0, ?g\<lparr>money := 50, player_exp := 20\<rparr>)"
    by (simp only: lvl same)
  have "fightVictory ''Beginner Hall'' commonEnemy 0 0 ?g
      = (Inr (Victory (exp_reward commonEnemy) (cash commonEnemy) 0 None),
         ?g\<lparr>money := 50, player_exp := 20\<rparr>)"
    using sp by (intro fightVictory_plain [OF lvl', of _ "[]"])
       (simp_all add: commonEnemy_def)
  then have "fightVictory ''Beginner Hall'' commonEnemy 0 0 ?g
      = (Inr (Victory 20 50 0 None), ?g\<lparr>money := 50, player_exp := 20\<rparr>)"
    by (simp add: commonEnemy_def)
  then show ?thesis using sp loop by (simp add: fightEnemy_def sweptGame_def)
qed

section \<open>Properties of the sell area\<close>

lemma levelUpLoop_conserves:
  "levelUpLoop e l n = (e', l', n') \<Longrightarrow>
   l \<le> l' \<and> e' + real_of_int (\<Sum>k = l..<l'. requiredExp k) = e"
proof (induction e l n rule: levelUpLoop.induct)
  case (1 e level levelsGained)
  show ?case
  proof (cases "real_of_int (requiredExp level) \<le> e")
    case True
    with "1.prems" have "levelUpLoop (e - real_of_int (requiredExp level)) (level + 1) (levelsGained + 1) = (e', l', n')"
      by (subst (asm) levelUpLoop.simps) simp
    with True "1.IH" have ih: "level + 1 \<le> l'"
      "e' + real_of_int (\<Sum>k = level + 1..<l'. requiredExp k) = e - real_of_int (requiredExp level)"
      by blast+
    have "(\<Sum>k = level..<l'. requiredExp k) = requiredExp level + (\<Sum>k = level + 1..<l'. requiredExp k)"
      using ih(1) by (simp add: sum.atLeast_Suc_lessThan)
    with ih show ?thesis by simp
  next
    case False
    with "1.prems" have "(e, level, levelsGained) = (e', l', n')"
      by (subst (asm) levelUpLoop.simps) simp
    then show ?thesis by auto
  qed
qed

lemma checkLevelUp_conserves:
  "player_level g \<le> player_level (snd (checkLevelUp g))
   \<and> player_exp (snd (checkLevelUp g))
       + real_of_int (\<Sum>k = player_level g..<player_level (snd (checkLevelUp g)). requiredExp k)
     = player_exp g"
proof -
  obtain e' l' n' where r: "levelUpLoop (player_exp g) (player_level g) 0 = (e', l', n')"
    using prod_cases3 by blast
  from levelUpLoop_conserves [OF r] checkLevelUp_snd [OF r] show ?thesis by simp
qed

lemma sellEntry_effect:
  assumes "sellEntry i (sold, g) = (sold', g')"
  shows "map fst sold' = map fst sold @ [entry_item (sell_area g ! i)]"
    and "sell_area g' = splice1 i (sell_area g)"
    and "money g' = money g + Price (entry_item (sell_area g ! i))"
    and "recycled_ids g' = recycled_ids g @ [ID (entry_item (sell_area g ! i))]"
    and "player_level g \<le> player_level g'"
    and "player_exp g' + real_of_int (\<Sum>k = player_level g..<player_level g'. requiredExp k)
          = player_exp g + entryExp (sell_area g ! i)"
proof -
  let ?it = "entry_item (sell_area g ! i)"
  let ?g2 = "g\<lparr>money := money g + Price ?it,
               player_exp := player_exp g + entryExp (sell_area g ! i)\<rparr>"
  obtain lg g3 where c: "checkLevelUp ?g2 = (lg, g3)" by (cases "checkLevelUp ?g2") auto
  from assms c have s: "sold' = sold @ [(?it, lg)]"
    and g': "g' = g3\<lparr>recycled_ids := recycled_ids g3 @ [ID ?it],
                    sell_area := splice1 i (sell_area g3)\<rparr>"
    by (simp_all add: sellEntry_def Let_def entryExp_def)
  have k: "money g3 = money ?g2" "sell_area g3 = sell_area ?g2" "recycled_ids g3 = recycled_ids ?g2"
    using checkLevelUp_keeps [of ?g2] c by simp_all
  have cons: "player_level ?g2 \<le> player_level g3
     \<and> player_exp g3 + real_of_int (\<Sum>k = player_level ?g2..<player_level g3. requiredExp k)
       = player_exp ?g2"
    using checkLevelUp_conserves [of ?g2] c by simp
  show "map fst sold' = map fst sold @ [?it]" using s by simp
  show "sell_area g' = splice1 i (sell_area g)" using g' k by simp
  show "money g' = money g + Price ?it" using g' k by simp
  show "recycled_ids g' = recycled_ids g @ [ID ?it]" using g' k by simp
  show "player_level g \<le> player_level g'" using g' cons by simp
  show "player_exp g' + real_of_int (\<Sum>k = player_level g..<player_level g'. requiredExp k)
          = player_exp g + entryExp (sell_area g ! i)"
    using g' cons by simp
qed

lemma sellLoop_effect:
  assumes "i \<le> length (sell_area g)" and "sellLoop t i (sold, g) = (sold', g')"
  shows "map fst sold' = map fst sold @ rev (map entry_item (filter (entryDue t) (take i (sell_area g))))
     \<and> sell_area g' = filter (\<lambda>e. \<not> entryDue t e) (take i (sell_area g)) @ drop i (sell_area g)
     \<and> money g' = money g + (\<Sum>e\<leftarrow>filter (entryDue t) (take i (sell_area g)). Price (entry_item e))
     \<and> recycled_ids g' = recycled_ids g
          @ rev (map (\<lambda>e. ID (entry_item e)) (filter (entryDue t) (take i (sell_area g))))
     \<and> player_level g \<le> player_level g'
     \<and> player_exp g' + real_of_int (\<Sum>k = player_level g..<player_level g'. requiredExp k)
          = player_exp g + (\<Sum>e\<leftarrow>filter (entryDue t) (take i (sell_area g)). entryExp e)"
  using assms
proof (induction i arbitrary: sold g)
  case 0
  then show ?case by simp
next
  case (Suc i)
  let ?xs = "sell_area g"
  from Suc.prems have i: "i < length ?xs" by simp
  then have tk: "take (Suc i) ?xs = take i ?xs @ [?xs ! i]" by (rule take_Suc_conv_app_nth)
  show ?case
  proof (cases "entryDue t (?xs ! i)")
    case False
    with Suc.prems have "sellLoop t i (sold, g) = (sold', g')"
      by (simp add: entryDue_def Let_def)
    from Suc.IH [OF _ this] i False show ?thesis
      by (simp add: tk Cons_nth_drop_Suc)
  next
    case True
    obtain sold1 g1 where e: "sellEntry i (sold, g) = (sold1, g1)"
      by (cases "sellEntry i (sold, g)") auto
    note eff = sellEntry_effect [OF e]
    from True Suc.prems e have loop: "sellLoop t i (sold1, g1) = (sold', g')"
      by (simp add: entryDue_def Let_def)
    have xs1: "sell_area g1 = take i ?xs @ drop (Suc i) ?xs"
      using eff(2) by (simp add: splice1_def)
    have len: "i \<le> length (sell_area g1)" using i xs1 by simp
    have tk1: "take i (sell_area g1) = take i ?xs" using i xs1 by simp
    have dr1: "drop i (sell_area g1) = drop (Suc i) ?xs" using i xs1 by simp
    note ih = Suc.IH [OF len loop, unfolded tk1 dr1]
    have lv: "player_level g \<le> player_level g1" "player_level g1 \<le> player_level g'"
      using eff(5) ih by simp_all
    then have split: "(\<Sum>k = player_level g..<player_level g'. requiredExp k)
        = (\<Sum>k = player_level g..<player_level g1. requiredExp k)
          + (\<Sum>k = player_level g1..<player_level g'. requiredExp k)"
      by (simp add: sum.atLeastLessThan_concat)
    show ?thesis
      using ih eff True lv unfolding tk split by simp
  qed
qed

lemma processSellArea_effect:
  "map fst (fst (processSellArea t g)) = rev (map entry_item (filter (entryDue t) (sell_area g)))
   \<and> sell_area (snd (processSellArea t g)) = filter (\<lambda>e. \<not> entryDue t e) (sell_area g)
   \<and> money (snd (processSellArea t g))
       = money g + (\<Sum>e\<leftarrow>filter (entryDue t) (sell_area g). Price (entry_item e))
   \<and> recycled_ids (snd (processSellArea t g))
       = recycled_ids g @ rev (map (\<lambda>e. ID (entry_item e)) (filter (entryDue t) (sell_area g)))
   \<and> player_level g \<le> player_level (snd (processSellArea t g))
   \<and> player_exp (snd (processSellArea t g))
       + real_of_int (\<Sum>k = player_level g..<player_level (snd (processSellArea t g)). requiredExp k)
       = player_exp g + (\<Sum>e\<leftarrow>filter (entryDue t) (sell_area g). entryExp e)"
proof -
  obtain sold' g' where r: "sellLoop t (length (sell_area g)) ([], g) = (sold', g')"
    by (cases "sellLoop t (length (sell_area g)) ([], g)") auto
  from sellLoop_effect [OF _ r] r show ?thesis by (simp add: processSellArea_def)
qed

text \<open>
  Claim C7. A tick of the sell area at time \<open>t\<close> sells exactly the entries that are due
  (\<open>t \<ge> time_added + timer\<close>), each once and all in the same tick (last entry first), and
  keeps the others in their order. Every sale adds the item's price to the money and the
  price times the rarity and mold experience multipliers to the experience, which
  \<open>checkLevelUp\<close> then spends on levels. A later tick sells only entries that were not due
  before, and a second tick at the same time sells nothing. An entry enqueued at \<open>now\<close> with
  a timer of 30 is not sold at \<open>now + 29\<close>, is sold at \<open>now + 30\<close>, and is never sold again.
\<close>

theorem processSellArea_sells_due:
  "map fst (fst (processSellArea t g)) = rev (map entry_item (filter (entryDue t) (sell_area g)))
   \<and> sell_area (snd (processSellArea t g)) = filter (\<lambda>e. \<not> entryDue t e) (sell_area g)
   \<and> money (snd (processSellArea t g))
       = money g + (\<Sum>e\<leftarrow>filter (entryDue t) (sell_area g). Price (entry_item e))
   \<and> player_exp (snd (processSellArea t g))
       + real_of_int (\<Sum>k = player_level g..<player_level (snd (processSellArea t g)). requiredExp k)
       = player_exp g + (\<Sum>e\<leftarrow>filter (entryDue t) (sell_area g). entryExp e)
   \<and> map fst (fst (processSellArea t' (snd (processSellArea t g))))
       = rev (map entry_item (filter (entryDue t') (filter (\<lambda>e. \<not> entryDue t e) (sell_area g))))
   \<and> fst (processSellArea t (snd (processSellArea t g))) = []
   \<and> (sell_area g = [\<lparr>entry_item = it, time_added = now, timer = 30\<rparr>] \<longrightarrow>
        fst (processSellArea (now + 29) g) = []
        \<and> map fst (fst (processSellArea (now + 30) g)) = [it]
        \<and> fst (processSellArea t' (snd (processSellArea (now + 30) g))) = [])"
proof -
  note a = processSellArea_effect [of t g]
  have again: "map fst (fst (processSellArea u (snd (processSellArea v g))))
       = rev (map entry_item (filter (entryDue u) (filter (\<lambda>e. \<not> entryDue v e) (sell_area g))))"
    for u v
    using processSellArea_effect [of u "snd (processSellArea v g)"]
      processSellArea_effect [of v g] by simp
  have same: "fst (processSellArea t (snd (processSellArea t g))) = []"
    using again [of t t] by simp
  have trip: "fst (processSellArea (now + 29) g) = []
        \<and> map fst (fst (processSellArea (now + 30) g)) = [it]
        \<and> fst (processSellArea t' (snd (processSellArea (now + 30) g))) = []"
    if one: "sell_area g = [\<lparr>entry_item = it, time_added = now, timer = 30\<rparr>]"
  proof -
    have "map fst (fst (processSellArea (now + 29) g)) = []"
      using processSellArea_effect [of "now + 29" g] one by (simp add: entryDue_def)
    moreover have "map fst (fst (processSellArea (now + 30) g)) = [it]"
      using processSellArea_effect [of "now + 30" g] one by (simp add: entryDue_def)
    moreover have "map fst (fst (processSellArea t' (snd (processSellArea (now + 30) g)))) = []"
      using again [of t' "now + 30"] one by (simp add: entryDue_def)
    ultimately show ?thesis by simp
  qed
  show ?thesis using a again [of t' t] same trip by simp
qed

theorem processSellArea_sells_due_witness:
  "sell_area (GameCore\<lparr>sell_area := [\<lparr>entry_item = zenithSword, time_added = 1000, timer = 30\<rparr>]\<rparr>)
     = [\<lparr>entry_item = zenithSword, time_added = 1000, timer = 30\<rparr>]
   \<and> fst (processSellArea 1029
        (GameCore\<lparr>sell_area := [\<lparr>entry_item = zenithSword, time_added = 1000, timer = 30\<rparr>]\<rparr>)) = []
   \<and> map fst (fst (processSellArea 1030
        (GameCore\<lparr>sell_area := [\<lparr>entry_item = zenithSword, time_added = 1000, timer = 30\<rparr>]\<rparr>)))
      = [zenithSword]
   \<and> fst (processSellArea 1031 (snd (processSellArea 1030
        (GameCore\<lparr>sell_area := [\<lparr>entry_item = zenithSword, time_added = 1000, timer = 30\<rparr>]\<rparr>))))
      = []"
proof -
  let ?g = "GameCore\<lparr>sell_area := [\<lparr>entry_item = zenithSword, time_added = 1000, timer = 30\<rparr>]\<rparr>"
  have one: "sell_area ?g = [\<lparr>entry_item = zenithSword, time_added = 1000, timer = 30\<rparr>]"
    by simp
  have "fst (processSellArea (1000 + 29) ?g) = []
        \<and> map fst (fst (processSellArea (1000 + 30) ?g)) = [zenithSword]
        \<and> fst (processSellArea 1031 (snd (processSellArea (1000 + 30) ?g))) = []"
    using processSellArea_sells_due [of 1030 ?g 1031 zenithSword 1000, THEN conjunct2,
      THEN conjunct2, THEN conjunct2, THEN conjunct2, THEN conjunct2, THEN conjunct2,
      THEN mp, OF one] .
  then show ?thesis by simp
qed

section \<open>Properties of item generation\<close>

lemma getTier_scan_from_table:
  "getTier_scan roll tiers i = Some res \<Longrightarrow>
   \<exists>j<length tiers. tier res = tier_name (tiers ! j) \<and> tier_values res = tier_extras (tiers ! j)"
proof (induction roll tiers i rule: getTier_scan.induct)
  case (1 roll tiers i)
  show ?case
  proof (cases "i < length tiers")
    case False
    with "1.prems" show ?thesis by (subst (asm) getTier_scan.simps) simp
  next
    case inb: True
    show ?thesis
    proof (cases "prevThreshold tiers i < roll \<and> roll \<le> tier_threshold (tiers ! i)")
      case True
      with "1.prems" inb have "tier res = tier_name (tiers ! i) \<and> tier_values res = tier_extras (tiers ! i)"
        by (subst (asm) getTier_scan.simps) (auto simp: Let_def)
      with inb show ?thesis by blast
    next
      case False
      with "1.prems" inb have "getTier_scan roll tiers (i + 1) = Some res"
        by (subst (asm) getTier_scan.simps) (auto simp: Let_def)
      with "1.IH" [OF inb refl refl refl refl refl False] show ?thesis by blast
    qed
  qed
qed

lemma getTier_from_table:
  assumes "getTier roll tiers luck = Inr res"
  shows "\<exists>j<length tiers. tier res = tier_name (tiers ! j) \<and> tier_values res = tier_extras (tiers ! j)"
proof (cases "getTier_scan roll tiers 0")
  case (Some r)
  with assms have "r = res" by (simp add: getTier_def)
  with Some getTier_scan_from_table show ?thesis by blast
next
  case None
  with assms have ne: "tiers \<noteq> []"
    and "tier res = tier_name (tiers ! (length tiers - 1))
       \<and> tier_values res = tier_extras (tiers ! (length tiers - 1))"
    by (auto simp: getTier_def Let_def split: if_splits)
  moreover from ne have "length tiers - 1 < length tiers" by simp
  ultimately show ?thesis by blast
qed

lemma rngGen_result:
  assumes "rngGen g rnd1 rnd2 = Inr r"
  shows "getTier (Math_floor (rnd1 * real_of_int (max 1
            (Math_floor (MAXIMUM_VALUE / max 1 (luck_multiplier g))))) + 1)
           RARITY_TIERS (luck_multiplier g) = Inr (rarityResult r)
     \<and> getTier (Math_floor (rnd2 * real_of_int (max 1
            (Math_floor (MAXIMUM_VALUE / max 1 (mold_mult g))))) + 1)
           MOLD_TIERS (mold_mult g) = Inr (moldResult r)
     \<and> rarity r = (range_end (rarityResult r), tier (rarityResult r),
                    fst (tier_values (rarityResult r)), fst (snd (tier_values (rarityResult r))))
     \<and> moldInfo r = (range_end (moldResult r), tier (moldResult r),
                      fst (tier_values (moldResult r)))"
proof -
  let ?r1 = "Math_floor (rnd1 * real_of_int (max 1
      (Math_floor (MAXIMUM_VALUE / max 1 (luck_multiplier g))))) + 1"
  let ?r2 = "Math_floor (rnd2 * real_of_int (max 1
      (Math_floor (MAXIMUM_VALUE / max 1 (mold_mult g))))) + 1"
  from assms obtain a where a: "getTier ?r1 RARITY_TIERS (luck_multiplier g) = Inr a"
    by (cases "getTier ?r1 RARITY_TIERS (luck_multiplier g)") (simp_all add: rngGen_def Let_def)
  from assms a obtain b where b: "getTier ?r2 MOLD_TIERS (mold_mult g) = Inr b"
    by (cases "getTier ?r2 MOLD_TIERS (mold_mult g)") (simp_all add: rngGen_def Let_def)
  from assms a b have "rarityResult r = a" "moldResult r = b"
    "rarity r = (range_end a, tier a, fst (tier_values a), fst (snd (tier_values a)))"
    "moldInfo r = (range_end b, tier b, fst (tier_values b))"
    by (auto simp: rngGen_def Let_def)
  with a b show ?thesis by auto
qed

lemma itemGen_price:
  assumes "itemGen g auto_sell_threshold now rndWeapon rnd1 rnd2 = Inr ((it, ca, rr, mr), g')"
  shows "Price it = 4.5 * (fst (tier_values rr) * 0.95) * fst (tier_values mr)
                      * getRarityCostScaling (tier rr)
     \<and> Rarity it = tier rr \<and> Mold it = tier mr
     \<and> getTier (Math_floor (rnd1 * real_of_int (max 1
            (Math_floor (MAXIMUM_VALUE / max 1 (luck_multiplier g))))) + 1)
           RARITY_TIERS (luck_multiplier g) = Inr rr
     \<and> getTier (Math_floor (rnd2 * real_of_int (max 1
            (Math_floor (MAXIMUM_VALUE / max 1 (mold_mult g))))) + 1)
           MOLD_TIERS (mold_mult g) = Inr mr"
proof -
  from assms obtain wd where wd: "getWeapon g rndWeapon = Some wd"
    by (cases "getWeapon g rndWeapon") (simp_all add: itemGen_def)
  from assms wd obtain r where r: "rngGen g rnd1 rnd2 = Inr r"
    by (cases "rngGen g rnd1 rnd2") (simp_all add: itemGen_def Let_def)
  note rr = rngGen_result [OF r]
  obtain itemId g1 where n: "nextItemId g = (itemId, g1)" by (cases "nextItemId g") auto
  from assms wd r n rr have "rr = rarityResult r" "mr = moldResult r"
    "Price it = 4.5 * (fst (tier_values (rarityResult r)) * 0.95)
        * fst (tier_values (moldResult r)) * getRarityCostScaling (tier (rarityResult r))"
    "Rarity it = tier (rarityResult r)" "Mold it = tier (moldResult r)"
    by (auto simp: itemGen_def Let_def)
  with rr show ?thesis by simp
qed

lemma getTier_nonempty:
  "tiers \<noteq> [] \<Longrightarrow> \<exists>res. getTier roll tiers luck = Inr res"
  by (cases "getTier_scan roll tiers 0") (simp_all add: getTier_def Let_def)

lemma tables_nonempty: "RARITY_TIERS \<noteq> []" "MOLD_TIERS \<noteq> []"
  by (simp_all add: RARITY_TIERS_def MOLD_TIERS_def)

lemma rngGen_returns: "\<exists>r. rngGen g rnd1 rnd2 = Inr r"
proof -
  let ?r1 = "Math_floor (rnd1 * real_of_int (max 1
      (Math_floor (MAXIMUM_VALUE / max 1 (luck_multiplier g))))) + 1"
  let ?r2 = "Math_floor (rnd2 * real_of_int (max 1
      (Math_floor (MAXIMUM_VALUE / max 1 (mold_mult g))))) + 1"
  obtain a where a: "getTier ?r1 RARITY_TIERS (luck_multiplier g) = Inr a"
    using getTier_nonempty [OF tables_nonempty(1)] by blast
  obtain b where b: "getTier ?r2 MOLD_TIERS (mold_mult g) = Inr b"
    using getTier_nonempty [OF tables_nonempty(2)] by blast
  show ?thesis using a b by (simp add: rngGen_def Let_def)
qed

lemma itemGen_returns:
  assumes "getWeapon g rndWeapon = Some wd"
  shows "\<exists>it ca rr mr g'. itemGen g auto_sell_threshold now rndWeapon rnd1 rnd2
      = Inr ((it, ca, rr, mr), g')"
proof -
  obtain r where r: "rngGen g rnd1 rnd2 = Inr r" using rngGen_returns by blast
  obtain itemId g1 where n: "nextItemId g = (itemId, g1)" by (cases "nextItemId g") auto
  show ?thesis using assms r n by (simp add: itemGen_def Let_def)
qed

lemma findIndex_distinct:
  "distinct (map f xs) \<Longrightarrow> i < length xs \<Longrightarrow> findIndex (\<lambda>x. f x = f (xs ! i)) xs = Some i"
proof (induction xs arbitrary: i)
  case Nil then show ?case by simp
next
  case (Cons x xs)
  show ?case
  proof (cases i)
    case 0 then show ?thesis by simp
  next
    case (Suc j)
    with Cons.prems have j: "j < length xs" and "f (xs ! j) \<in> f ` set xs" by auto
    with Cons.prems have "f x \<noteq> f (xs ! j)" by auto
    with Cons.IH [OF _ j] Cons.prems Suc show ?thesis by simp
  qed
qed

lemma RARITY_TIERS_length: "length RARITY_TIERS = 22"
  by (simp add: RARITY_TIERS_def)

lemma RARITY_TIERS_distinct: "distinct (map tier_name RARITY_TIERS)"
  by (simp add: RARITY_TIERS_def tier_name_def)

lemma scale_below_cap:
  assumes "1 \<le> r" "r \<le> 22"
  shows "1 + Math_pow r 1.25 / 160 < 1.85"
proof -
  have "r powr (real 5 / real 4) \<le> 22 powr (real 5 / real 4)"
    using assms by (intro powr_mono2) simp_all
  moreover have "(0::real) \<le> 22 powr (real 5 / real 4) \<and> 22 powr (real 5 / real 4) < (136::real)"
    by (rule powr_rat_bounds) simp_all
  ultimately have "r powr (5 / 4) < 136" by simp
  then show ?thesis by (simp add: Math_pow_def)
qed

lemma getRarityCostScaling_row:
  assumes "i < length RARITY_TIERS"
  shows "getRarityCostScaling (tier_name (RARITY_TIERS ! i))
      = 1 + Math_pow (real (length RARITY_TIERS - i)) 1.25 / 160"
proof -
  have idx: "findIndex (\<lambda>r. tier_name r = tier_name (RARITY_TIERS ! i)) RARITY_TIERS = Some i"
    using findIndex_distinct [OF RARITY_TIERS_distinct assms] .
  have "1 \<le> real (length RARITY_TIERS - i)" "real (length RARITY_TIERS - i) \<le> 22"
    using assms by (simp_all add: RARITY_TIERS_length)
  from scale_below_cap [OF this] idx show ?thesis
    by (simp add: getRarityCostScaling_def Let_def)
qed

lemma getRarityCostScaling_le_cap: "getRarityCostScaling n \<le> 1.85"
proof (cases "findIndex (\<lambda>r. tier_name r = n) RARITY_TIERS")
  case None
  then show ?thesis by (simp add: getRarityCostScaling_def)
next
  case (Some i)
  have "min (1 + Math_pow (real (length RARITY_TIERS - i)) 1.25 / 160) 1.85 \<le> (1.85::real)"
    by (rule min.cobounded2)
  with Some show ?thesis by (simp add: getRarityCostScaling_def Let_def)
qed

lemma RARITY_TIERS_sorted: "sorted_wrt (<) (map tier_threshold RARITY_TIERS)"
  by (simp add: RARITY_TIERS_def tier_threshold_def Math_floor_def MAXIMUM_VALUE_def)

lemma MOLD_TIERS_sorted: "sorted_wrt (<) (map tier_threshold MOLD_TIERS)"
  by (simp add: MOLD_TIERS_def tier_threshold_def Math_floor_def MAXIMUM_VALUE_def)

lemma Math_round_le: "x < real_of_int n + 1 / 2 \<Longrightarrow> Math_round x \<le> n"
  unfolding Math_round_def by linarith

lemma toFixed2_le: "x \<le> real_of_int n / 100 \<Longrightarrow> toFixed2 x \<le> real_of_int n / 100"
proof -
  assume "x \<le> real_of_int n / 100"
  then have "x * 100 + 1 / 2 < real_of_int n + 1" by simp
  then have "\<lfloor>x * 100 + 1 / 2\<rfloor> \<le> n" by linarith
  then show ?thesis by (simp add: toFixed2_def divide_right_mono)
qed

lemma GameCore_mults: "luck_multiplier GameCore \<le> 1" "mold_mult GameCore \<le> 1"
proof -
  let ?a = "(1 + (ln 2 - 1.05) * (1 + 1 / 100)) * 100 :: real"
  have "?a = 100 + 101 * ln 2 - 106.05" by (simp add: algebra_simps)
  then have "?a < real_of_int 95 + 1 / 2" using ln_2_less_1 by simp
  then have r1: "Math_round ?a \<le> 95" by (rule Math_round_le)
  let ?b = "real_of_int (Math_round ?a) / 100 * (1 + 1 * 0.01) * 100 :: real"
  have "real_of_int (Math_round ?a) \<le> 95" using r1 by simp
  then have "?b < real_of_int 96 + 1 / 2" by simp
  then have r2: "Math_round ?b \<le> 96" by (rule Math_round_le)
  then have "real_of_int (Math_round ?b) / 100 \<le> real_of_int 96 / 100" by simp
  then have "toFixed2 (real_of_int (Math_round ?b) / 100) \<le> real_of_int 96 / 100"
    by (rule toFixed2_le)
  then have le: "toFixed2 (real_of_int (Math_round ?b) / 100) \<le> 1" by simp
  have "luck_multiplier GameCore = toFixed2 (real_of_int (Math_round ?b) / 100)"
    by (simp add: GameCore_def recalculate_def updateLuckMult_def getLevelScale_def Let_def
        mult.commute)
  with le show "luck_multiplier GameCore \<le> 1" by simp
  have "mold_mult GameCore = toFixed2 (real_of_int (Math_round ?b) / 100)"
    by (simp add: GameCore_def recalculate_def updateLuckMult_def getLevelScale_def Let_def
        mult.commute)
  with le show "mold_mult GameCore \<le> 1" by simp
qed

lemma GameCore_mold_level: "mold_level GameCore = Suc 0"
  by (simp add: GameCore_def recalculate_def)

lemma GameCore_getWeapon: "getWeapon GameCore 0 = Some (''Sword'', 1, 4, 10, 0)"
  by (simp add: getWeapon_def GameCore_mold_level WEAPON_TYPES_def weapon_mold_required_def
      pick_def Math_floor_def Let_def)

lemma roll_common:
  assumes "m \<le> 1"
  shows "Math_floor (9 / 10 * real_of_int (max 1 (Math_floor (MAXIMUM_VALUE / max 1 m)))) + 1
      = 90000000000000000001"
proof -
  from assms have "max 1 m = 1" by simp
  then show ?thesis by (simp add: Math_floor_def MAXIMUM_VALUE_def)
qed

lemma getTier_common:
  "\<exists>res. getTier 90000000000000000001 RARITY_TIERS luck = Inr res
     \<and> tier res = ''Common'' \<and> tier_values res = (1.5, 1, 1)"
proof -
  have i: "21 < length RARITY_TIERS" by (simp add: RARITY_TIERS_length)
  have row: "RARITY_TIERS ! 21 = (''Common'', Math_floor (MAXIMUM_VALUE / 1), 1.5, 1, 1)"
    "RARITY_TIERS ! 20 = (''Common+1'', Math_floor (MAXIMUM_VALUE / 1.5), 1.875, 1.1, 1.03)"
    by (simp_all add: RARITY_TIERS_def)
  have lo: "prevThreshold RARITY_TIERS 21 < 90000000000000000001"
    by (simp add: prevThreshold_def row tier_threshold_def Math_floor_def MAXIMUM_VALUE_def)
  have hi: "90000000000000000001 \<le> tier_threshold (RARITY_TIERS ! 21)"
    by (simp add: row tier_threshold_def Math_floor_def MAXIMUM_VALUE_def)
  from getTier_row [OF RARITY_TIERS_sorted i lo hi, of luck] show ?thesis
    by (simp add: row tier_name_def tier_extras_def)
qed

lemma getTier_copper:
  "\<exists>res. getTier 90000000000000000001 MOLD_TIERS luck = Inr res
     \<and> tier res = ''Copper'' \<and> tier_values res = (1.2, 1.2)"
proof -
  have i: "9 < length MOLD_TIERS" by (simp add: MOLD_TIERS_def)
  have row: "MOLD_TIERS ! 9 = (''Copper'', Math_floor (MAXIMUM_VALUE / 1), 1.2, 1.2)"
    "MOLD_TIERS ! 8 = (''Bronze'', Math_floor (MAXIMUM_VALUE / 5), 1.75, 1.5)"
    by (simp_all add: MOLD_TIERS_def)
  have lo: "prevThreshold MOLD_TIERS 9 < 90000000000000000001"
    by (simp add: prevThreshold_def row tier_threshold_def Math_floor_def MAXIMUM_VALUE_def)
  have hi: "90000000000000000001 \<le> tier_threshold (MOLD_TIERS ! 9)"
    by (simp add: row tier_threshold_def Math_floor_def MAXIMUM_VALUE_def)
  from getTier_row [OF MOLD_TIERS_sorted i lo hi, of luck] show ?thesis
    by (simp add: row tier_name_def tier_extras_def)
qed

lemma scaling_common: "getRarityCostScaling ''Common'' = 161 / 160"
proof -
  have i: "21 < length RARITY_TIERS" by (simp add: RARITY_TIERS_length)
  have "tier_name (RARITY_TIERS ! 21) = ''Common''"
    by (simp add: RARITY_TIERS_def tier_name_def)
  with getRarityCostScaling_row [OF i] show ?thesis
    by (simp add: RARITY_TIERS_length Math_pow_def)
qed

lemma GameCore_itemGen_run:
  "\<exists>it ca rr mr g'. itemGen GameCore 100 0 0 (9 / 10) (9 / 10) = Inr ((it, ca, rr, mr), g')
     \<and> Rarity it = ''Common'' \<and> Mold it = ''Copper''
     \<and> fst (tier_values rr) = 1.5 \<and> fst (tier_values mr) = 1.2
     \<and> Price it = 4.5 * (1.5 * 0.95) * 1.2 * (161 / 160)"
proof -
  obtain it ca rr mr g' where
    run: "itemGen GameCore 100 0 0 (9 / 10) (9 / 10) = Inr ((it, ca, rr, mr), g')"
    using itemGen_returns [OF GameCore_getWeapon] by blast
  note p = itemGen_price [OF run]
  from p have "getTier 90000000000000000001 RARITY_TIERS (luck_multiplier GameCore) = Inr rr"
    by (simp only: roll_common [OF GameCore_mults(1)])
  with getTier_common [of "luck_multiplier GameCore"]
  have rr: "tier rr = ''Common''" "tier_values rr = (1.5, 1, 1)" by auto
  from p have "getTier 90000000000000000001 MOLD_TIERS (mold_mult GameCore) = Inr mr"
    by (simp only: roll_common [OF GameCore_mults(2)])
  with getTier_copper [of "mold_mult GameCore"]
  have mr: "tier mr = ''Copper''" "tier_values mr = (1.2, 1.2)" by auto
  from p rr mr have "Rarity it = ''Common''" "Mold it = ''Copper''"
    "fst (tier_values rr) = 1.5" "fst (tier_values mr) = 1.2"
    "Price it = 4.5 * (1.5 * 0.95) * 1.2 * (161 / 160)"
    by (simp_all add: scaling_common)
  with run show ?thesis by blast
qed

text \<open>
  Claim C9, as amended. The price of every item that \<open>itemGen\<close> generates is the base price
  4.5 times 0.95 times the price multiplier of the rarity tier times the price multiplier
  of the mold tier times the cost scaling of the rarity. The cost scaling is at most 1.85
  for every name; for the tier at index \<open>i\<close> of the rarity table it is
  \<open>1 + rank powr 1.25 / 160\<close> with \<open>rank = length - i\<close>, the rank from the bottom, and it
  grows strictly with the rank.
\<close>

theorem itemGen_price_formula:
  "(itemGen g auto_sell_threshold now rndWeapon rnd1 rnd2 = Inr ((it, ca, rr, mr), g') \<longrightarrow>
      Price it = 4.5 * (0.95 * fst (tier_values rr)) * fst (tier_values mr)
                   * getRarityCostScaling (Rarity it)
      \<and> (\<exists>k<length RARITY_TIERS. Rarity it = tier_name (RARITY_TIERS ! k)
             \<and> tier_values rr = tier_extras (RARITY_TIERS ! k))
      \<and> (\<exists>k<length MOLD_TIERS. Mold it = tier_name (MOLD_TIERS ! k)
             \<and> tier_values mr = tier_extras (MOLD_TIERS ! k)))
   \<and> getRarityCostScaling n \<le> 1.85
   \<and> (i < length RARITY_TIERS \<longrightarrow>
        getRarityCostScaling (tier_name (RARITY_TIERS ! i))
          = 1 + Math_pow (real (length RARITY_TIERS - i)) 1.25 / 160)
   \<and> (i < j \<and> j < length RARITY_TIERS \<longrightarrow>
        getRarityCostScaling (tier_name (RARITY_TIERS ! j))
          < getRarityCostScaling (tier_name (RARITY_TIERS ! i)))"
proof (intro conjI impI)
  assume run: "itemGen g auto_sell_threshold now rndWeapon rnd1 rnd2 = Inr ((it, ca, rr, mr), g')"
  note p = itemGen_price [OF run]
  from p show "Price it = 4.5 * (0.95 * fst (tier_values rr)) * fst (tier_values mr)
                   * getRarityCostScaling (Rarity it)"
    by (simp add: mult.commute)
  from p have "\<exists>k<length RARITY_TIERS. tier rr = tier_name (RARITY_TIERS ! k)
             \<and> tier_values rr = tier_extras (RARITY_TIERS ! k)"
    by (intro getTier_from_table) blast
  with p show "\<exists>k<length RARITY_TIERS. Rarity it = tier_name (RARITY_TIERS ! k)
             \<and> tier_values rr = tier_extras (RARITY_TIERS ! k)"
    by simp
  from p have "\<exists>k<length MOLD_TIERS. tier mr = tier_name (MOLD_TIERS ! k)
             \<and> tier_values mr = tier_extras (MOLD_TIERS ! k)"
    by (intro getTier_from_table) blast
  with p show "\<exists>k<length MOLD_TIERS. Mold it = tier_name (MOLD_TIERS ! k)
             \<and> tier_values mr = tier_extras (MOLD_TIERS ! k)"
    by simp
next
  show "getRarityCostScaling n \<le> 1.85" by (rule getRarityCostScaling_le_cap)
next
  assume "i < length RARITY_TIERS"
  then show "getRarityCostScaling (tier_name (RARITY_TIERS ! i))
          = 1 + Math_pow (real (length RARITY_TIERS - i)) 1.25 / 160"
    by (rule getRarityCostScaling_row)
next
  assume a: "i < j \<and> j < length RARITY_TIERS"
  then have "real (length RARITY_TIERS - j) < real (length RARITY_TIERS - i)" by simp
  then have "real (length RARITY_TIERS - j) powr 1.25 < real (length RARITY_TIERS - i) powr 1.25"
    by (intro powr_less_mono2) simp_all
  moreover from a have "i < length RARITY_TIERS" "j < length RARITY_TIERS" by simp_all
  ultimately show "getRarityCostScaling (tier_name (RARITY_TIERS ! j))
          < getRarityCostScaling (tier_name (RARITY_TIERS ! i))"
    by (simp add: getRarityCostScaling_row Math_pow_def)
qed

text \<open>
  The claim as stated leaves out the factor 0.95: a new game's item of rarity Common
  (price multiplier 1.5) and mold Copper (price multiplier 1.2) does not cost
  \<open>4.5 * 1.5 * 1.2\<close> times the cost scaling.
\<close>

theorem itemGen_price_counterexample:
  "\<not> isl (itemGen GameCore 100 0 0 (9 / 10) (9 / 10))
   \<and> Rarity (fst (fst (projr (itemGen GameCore 100 0 0 (9 / 10) (9 / 10))))) = ''Common''
   \<and> Mold (fst (fst (projr (itemGen GameCore 100 0 0 (9 / 10) (9 / 10))))) = ''Copper''
   \<and> fst (tier_extras (RARITY_TIERS ! 21)) = 1.5
   \<and> fst (tier_extras (MOLD_TIERS ! 9)) = 1.2
   \<and> Price (fst (fst (projr (itemGen GameCore 100 0 0 (9 / 10) (9 / 10)))))
       \<noteq> 4.5 * 1.5 * 1.2 * getRarityCostScaling ''Common''"
proof -
  obtain it ca rr mr g' where
    run: "itemGen GameCore 100 0 0 (9 / 10) (9 / 10) = Inr ((it, ca, rr, mr), g')"
    and f: "Rarity it = ''Common''" "Mold it = ''Copper''"
      "Price it = 4.5 * (1.5 * 0.95) * 1.2 * (161 / 160)"
    using GameCore_itemGen_run by blast
  have "fst (tier_extras (RARITY_TIERS ! 21)) = 1.5"
    by (simp add: RARITY_TIERS_def tier_extras_def)
  moreover have "fst (tier_extras (MOLD_TIERS ! 9)) = 1.2"
    by (simp add: MOLD_TIERS_def tier_extras_def)
  ultimately show ?thesis using run f by (simp add: scaling_common)
qed

theorem itemGen_price_formula_witness:
  "itemGen GameCore 100 0 0 (9 / 10) (9 / 10)
     = Inr ((fst (fst (projr (itemGen GameCore 100 0 0 (9 / 10) (9 / 10)))),
             fst (snd (fst (projr (itemGen GameCore 100 0 0 (9 / 10) (9 / 10))))),
             fst (snd (snd (fst (projr (itemGen GameCore 100 0 0 (9 / 10) (9 / 10)))))),
             snd (snd (snd (fst (projr (itemGen GameCore 100 0 0 (9 / 10) (9 / 10))))))),
            snd (projr (itemGen GameCore 100 0 0 (9 / 10) (9 / 10))))
   \<and> Price (fst (fst (projr (itemGen GameCore 100 0 0 (9 / 10) (9 / 10)))))
       = 4.5 * (0.95 * 1.5) * 1.2 * getRarityCostScaling ''Common''
   \<and> (0::nat) < 21 \<and> 21 < length RARITY_TIERS
   \<and> getRarityCostScaling (tier_name (RARITY_TIERS ! 21))
       < getRarityCostScaling (tier_name (RARITY_TIERS ! 0))"
proof -
  obtain it ca rr mr g' where
    run: "itemGen GameCore 100 0 0 (9 / 10) (9 / 10) = Inr ((it, ca, rr, mr), g')"
    and f: "Rarity it = ''Common''" "fst (tier_values rr) = 1.5" "fst (tier_values mr) = 1.2"
    using GameCore_itemGen_run by blast
  have len: "(0::nat) < 21 \<and> 21 < length RARITY_TIERS" by (simp add: RARITY_TIERS_length)
  note t = itemGen_price_formula [of GameCore 100 0 0 "9 / 10" "9 / 10" it ca rr mr g' "''Common''" 0 21]
  from t run f have "Price it = 4.5 * (0.95 * 1.5) * 1.2 * getRarityCostScaling ''Common''"
    by simp
  moreover from t len have "getRarityCostScaling (tier_name (RARITY_TIERS ! 21))
       < getRarityCostScaling (tier_name (RARITY_TIERS ! 0))" by blast
  ultimately show ?thesis using run len by simp
qed

section \<open>Properties of awards in double precision\<close>

lemma round_even_int [simp]: "round_even (real_of_int m) = m"
  by (simp add: round_even_def)

lemma fl_binade:
  assumes "2 powr real_of_int k \<le> \<bar>x\<bar>" "\<bar>x\<bar> < 2 powr real_of_int (k + 1)" "- 1022 \<le> k"
  shows "fl x = real_of_int (round_even (x / 2 powr real_of_int (k - 52)))
                  * 2 powr real_of_int (k - 52)"
proof -
  have pos: "0 < \<bar>x\<bar>" using assms(1) powr_gt_zero [of 2 "real_of_int k"] by linarith
  then have nz: "x \<noteq> 0" by simp
  have "\<lfloor>log 2 \<bar>x\<bar>\<rfloor> = k"
    using pos assms(1,2) by (simp add: floor_log_eq_powr_iff)
  with nz assms(3) show ?thesis by (simp add: fl_def Let_def max_def)
qed

lemma fl_int:
  assumes "\<bar>m\<bar> < 2 ^ 53"
  shows "fl (real_of_int m) = real_of_int m"
proof (cases "m = 0")
  case True then show ?thesis by (simp add: fl_def)
next
  case False
  define k where "k = \<lfloor>log 2 \<bar>real_of_int m\<bar>\<rfloor>"
  have pos: "0 < \<bar>real_of_int m\<bar>" using False by simp
  have one: "1 \<le> \<bar>real_of_int m\<bar>" using False by (simp add: of_int_abs [symmetric] del: of_int_abs) 
  have "0 \<le> log 2 \<bar>real_of_int m\<bar>" using one by simp
  then have k0: "0 \<le> k" by (simp add: k_def)
  have "\<bar>real_of_int m\<bar> < 2 ^ 53" using assms by (metis of_int_abs of_int_less_numeral_power_cancel_iff)
  then have "\<bar>real_of_int m\<bar> < 2 powr 53" by simp
  then have "log 2 \<bar>real_of_int m\<bar> < 53" using pos by (simp add: log_less_iff)
  then have k52: "k \<le> 52" by (simp add: k_def floor_le_iff)
  define n where "n = nat (52 - k)"
  have u: "2 powr real_of_int (k - 52) = 1 / 2 ^ n"
  proof -
    have "real_of_int (k - 52) = - real n" using k52 by (simp add: n_def)
    then show ?thesis by (simp add: powr_minus powr_realpow inverse_eq_divide)
  qed
  have "real_of_int m / (1 / 2 ^ n) = real_of_int (m * 2 ^ n)" by simp
  then have "round_even (real_of_int m / (1 / 2 ^ n)) = m * 2 ^ n"
    by (simp only: round_even_int)
  then have "real_of_int (round_even (real_of_int m / (1 / 2 ^ n))) * (1 / 2 ^ n) = real_of_int m"
    by simp
  then have r: "real_of_int (round_even (real_of_int m / 2 powr real_of_int (k - 52)))
      * 2 powr real_of_int (k - 52) = real_of_int m"
    by (simp only: u)
  have e: "max (- 1022) \<lfloor>log 2 \<bar>real_of_int m\<bar>\<rfloor> = k" using k0 by (simp add: k_def)
  have "fl (real_of_int m) = real_of_int (round_even (real_of_int m / 2 powr real_of_int (k - 52)))
      * 2 powr real_of_int (k - 52)"
    unfolding fl_def Let_def e using False by simp
  with r show ?thesis by simp
qed

lemma fl_tenth: "fl (1 / 10) = 3602879701896397 / 36028797018963968"
proof -
  have "fl (1 / 10) = real_of_int (round_even ((1 / 10) / 2 powr real_of_int (- 4 - 52)))
      * 2 powr real_of_int (- 4 - 52)"
    by (rule fl_binade) (simp_all add: powr_minus)
  then show ?thesis by (simp add: round_even_def powr_minus)
qed

lemma fl_998: "fl (499 / 5) = 7022800668930867 / 70368744177664"
proof -
  have "fl (499 / 5) = real_of_int (round_even ((499 / 5) / 2 powr real_of_int (6 - 52)))
      * 2 powr real_of_int (6 - 52)"
    by (rule fl_binade) (simp_all add: powr_minus)
  then show ?thesis by (simp add: round_even_def powr_minus)
qed

lemma fl_add_tenths:
  "fl (3602879701896397 / 36028797018963968 + 3602879701896397 / 36028797018963968)
     = 3602879701896397 / 18014398509481984"
proof -
  let ?x = "3602879701896397 / 36028797018963968 + 3602879701896397 / 36028797018963968 :: real"
  have "fl ?x = real_of_int (round_even (?x / 2 powr real_of_int (- 3 - 52)))
      * 2 powr real_of_int (- 3 - 52)"
    by (rule fl_binade) (simp_all add: powr_minus)
  then show ?thesis by (simp add: round_even_def powr_minus)
qed

lemma fl_add_to_100:
  "fl (3602879701896397 / 18014398509481984 + 7022800668930867 / 70368744177664) = 100"
proof -
  let ?x = "3602879701896397 / 18014398509481984 + 7022800668930867 / 70368744177664 :: real"
  have "fl ?x = real_of_int (round_even (?x / 2 powr real_of_int (6 - 52)))
      * 2 powr real_of_int (6 - 52)"
    by (rule fl_binade) (simp_all add: powr_minus)
  then show ?thesis by (simp add: round_even_def powr_minus)
qed

lemma fl_add_sum:
  "fl (3602879701896397 / 36028797018963968 + 7022800668930867 / 70368744177664)
     = 7029837543348633 / 70368744177664"
proof -
  let ?x = "3602879701896397 / 36028797018963968 + 7022800668930867 / 70368744177664 :: real"
  have "fl ?x = real_of_int (round_even (?x / 2 powr real_of_int (6 - 52)))
      * 2 powr real_of_int (6 - 52)"
    by (rule fl_binade) (simp_all add: powr_minus)
  then show ?thesis by (simp add: round_even_def powr_minus)
qed

lemma fl_add_once:
  "fl (3602879701896397 / 36028797018963968 + 7029837543348633 / 70368744177664)
     = 7036874417766399 / 70368744177664"
proof -
  let ?x = "3602879701896397 / 36028797018963968 + 7029837543348633 / 70368744177664 :: real"
  have "fl ?x = real_of_int (round_even (?x / 2 powr real_of_int (6 - 52)))
      * 2 powr real_of_int (6 - 52)"
    by (rule fl_binade) (simp_all add: powr_minus)
  then show ?thesis by (simp add: round_even_def powr_minus)
qed

lemma requiredExp_nonneg: "0 \<le> requiredExp l"
  by (simp add: requiredExp_def Math_floor_def Math_pow_def)

lemma requiredExp_ge_100: "0 < l \<Longrightarrow> 100 \<le> requiredExp l"
proof -
  assume "0 < l"
  then have "1 \<le> real l" by simp
  then have "1 \<le> real l powr 1.05" by (rule ge_one_powr_ge_zero) simp
  then have "(100::real) \<le> 100 * real l powr 1.05" by simp
  then show ?thesis by (simp add: requiredExp_def Math_floor_def Math_pow_def le_floor_iff)
qed

lemma levelUpLoopD_stay:
  "e < real_of_int (requiredExp l) \<Longrightarrow> levelUpLoopD e l n = Some (e, l, n)"
  by (subst levelUpLoopD.simps) simp

lemma levelUpLoopD_step:
  "real_of_int (requiredExp l) \<le> e \<Longrightarrow>
   levelUpLoopD e l n = levelUpLoopD (fl (e - real_of_int (requiredExp l))) (Suc l) (Suc n)"
  by (subst levelUpLoopD.simps) simp

lemma levelAndExp_once:
  assumes "levelUpLoopD (fl (player_exp g + a)) (player_level g) 0 = Some (e, l, n)"
  shows "levelAndExp (awardExp a g) = Some (l, e)"
    and "\<exists>g1. awardExp a g = Some (n, g1) \<and> player_exp g1 = e \<and> player_level g1 = l"
  using assms by (simp_all add: levelAndExp_def awardExp_def checkLevelUpD_def Let_def)

lemma levelAndExp_twice:
  assumes "levelUpLoopD (fl (player_exp g + a)) (player_level g) 0 = Some (e1, l1, n1)"
    and "levelUpLoopD (fl (e1 + b)) l1 0 = Some (e2, l2, n2)"
  shows "levelAndExp (awardExpTwice a b g) = Some (l2, e2)"
proof -
  from levelAndExp_once(2) [OF assms(1)] obtain g1 where
    g1: "awardExp a g = Some (n1, g1)" "player_exp g1 = e1" "player_level g1 = l1" by blast
  from assms(2) g1 have "levelUpLoopD (fl (player_exp g1 + b)) (player_level g1) 0 = Some (e2, l2, n2)"
    by simp
  from levelAndExp_once(1) [OF this] g1(1) show ?thesis by (simp add: awardExpTwice_def)
qed

text \<open>
  The claim as stated fails for amounts that are not integers: from an experience of 0.1,
  awards of 0.1 and then 99.8 reach level 2 with experience 0, and one award of
  \<^verbatim>\<open>0.1 + 99.8\<close> stays at level 1 with experience 99.99999999999999.
\<close>

theorem awardExp_twice_counterexample:
  "levelAndExp (awardExpTwice (fl (1 / 10)) (fl (499 / 5)) (GameCore\<lparr>player_exp := fl (1 / 10)\<rparr>))
     = Some (2, 0)
   \<and> levelAndExp (awardExp (fl (fl (1 / 10) + fl (499 / 5))) (GameCore\<lparr>player_exp := fl (1 / 10)\<rparr>))
     = Some (1, 7036874417766399 / 70368744177664)"
proof -
  let ?g = "GameCore\<lparr>player_exp := fl (1 / 10)\<rparr>"
  have lvl: "player_level ?g = Suc 0" by (simp add: GameCore_player)
  have ex: "player_exp ?g = fl (1 / 10)" by simp
  have r2: "100 \<le> requiredExp (Suc (Suc 0))" by (rule requiredExp_ge_100) simp
  have e1: "fl (player_exp ?g + fl (1 / 10)) = 3602879701896397 / 18014398509481984"
    by (subst ex) (simp only: fl_tenth fl_add_tenths)
  have a1: "levelUpLoopD (fl (player_exp ?g + fl (1 / 10))) (player_level ?g) 0
      = Some (3602879701896397 / 18014398509481984, Suc 0, 0)"
    unfolding e1 lvl by (rule levelUpLoopD_stay) (simp add: requiredExp_1)
  have e2: "fl (3602879701896397 / 18014398509481984 + fl (499 / 5)) = 100"
    by (simp only: fl_998 fl_add_to_100)
  have z: "fl (100 - real_of_int (requiredExp (Suc 0))) = 0"
    by (simp add: requiredExp_1 fl_def)
  have "levelUpLoopD 100 (Suc 0) 0
      = levelUpLoopD (fl (100 - real_of_int (requiredExp (Suc 0)))) (Suc (Suc 0)) (Suc 0)"
    by (rule levelUpLoopD_step) (simp add: requiredExp_1)
  also have "\<dots> = Some (0, Suc (Suc 0), Suc 0)"
    unfolding z using r2 by (intro levelUpLoopD_stay) simp
  finally have a2: "levelUpLoopD (fl (3602879701896397 / 18014398509481984 + fl (499 / 5))) (Suc 0) 0
      = Some (0, Suc (Suc 0), Suc 0)"
    by (simp only: e2)
  have e3: "fl (player_exp ?g + fl (fl (1 / 10) + fl (499 / 5))) = 7036874417766399 / 70368744177664"
    by (subst ex) (simp only: fl_tenth fl_998 fl_add_sum fl_add_once)
  have b1: "levelUpLoopD (fl (player_exp ?g + fl (fl (1 / 10) + fl (499 / 5)))) (player_level ?g) 0
      = Some (7036874417766399 / 70368744177664, Suc 0, 0)"
    unfolding e3 lvl by (rule levelUpLoopD_stay) (simp add: requiredExp_1)
  show ?thesis
    using levelAndExp_twice [OF a1 a2] levelAndExp_once(1) [OF b1]
    by (simp add: numeral_2_eq_2)
qed

lemma levelUpLoop_int:
  "levelUpLoop (real_of_int m) l n = (e', l', n') \<Longrightarrow> 0 \<le> m \<Longrightarrow>
   \<exists>m'. e' = real_of_int m' \<and> 0 \<le> m' \<and> m' \<le> m"
proof (induction "real_of_int m" l n arbitrary: m rule: levelUpLoop.induct)
  case (1 level levelsGained)
  show ?case
  proof (cases "real_of_int (requiredExp level) \<le> real_of_int m")
    case True
    then have le: "requiredExp level \<le> m" by simp
    from True "1.prems"(1)
    have "levelUpLoop (real_of_int (m - requiredExp level)) (level + 1) (levelsGained + 1)
        = (e', l', n')"
      by (subst (asm) levelUpLoop.simps) simp
    from "1.hyps" [OF True _ this] le obtain m' where
      "e' = real_of_int m'" "0 \<le> m'" "m' \<le> m - requiredExp level" by auto
    with requiredExp_nonneg [of level] show ?thesis by (intro exI [of _ m']) simp
  next
    case False
    with "1.prems"(1) have "(real_of_int m, level, levelsGained) = (e', l', n')"
      by (subst (asm) levelUpLoop.simps) simp
    with "1.prems"(2) show ?thesis by auto
  qed
qed

lemma levelUpLoopD_int:
  "0 \<le> m \<Longrightarrow> m < 2 ^ 53 \<Longrightarrow>
   levelUpLoopD (real_of_int m) l n = Some (levelUpLoop (real_of_int m) l n)"
proof (induction "real_of_int m" l n arbitrary: m rule: levelUpLoop.induct)
  case (1 level levelsGained)
  show ?case
  proof (cases "real_of_int (requiredExp level) \<le> real_of_int m")
    case True
    then have le: "requiredExp level \<le> m" by simp
    let ?m = "m - requiredExp level"
    have b: "0 \<le> ?m" "?m < 2 ^ 53"
      using le "1.prems" requiredExp_nonneg [of level] by simp_all
    then have "\<bar>?m\<bar> < 2 ^ 53" by simp
    then have ex: "fl (real_of_int m - real_of_int (requiredExp level)) = real_of_int ?m"
      using fl_int [of ?m] by simp
    have "levelUpLoopD (real_of_int m) level levelsGained
        = levelUpLoopD (real_of_int ?m) (Suc level) (Suc levelsGained)"
      using levelUpLoopD_step [OF True] ex by simp
    also have "\<dots> = Some (levelUpLoop (real_of_int ?m) (level + 1) (levelsGained + 1))"
      using "1.hyps" [OF True _ b] by simp
    also have "levelUpLoop (real_of_int ?m) (level + 1) (levelsGained + 1)
        = levelUpLoop (real_of_int m) level levelsGained"
      using True by (subst (2) levelUpLoop.simps) simp
    finally show ?thesis .
  next
    case False
    then show ?thesis
      by (subst levelUpLoopD.simps, subst levelUpLoop.simps) simp
  qed
qed

text \<open>
  Claim C6, as amended. When the experience and both awards are non-negative integers whose
  sum is below \<open>2 ^ 53\<close>, where the arithmetic of doubles is exact, two successive awards
  of \<open>a\<close> and \<open>b\<close> end in the same level and experience as one award of \<open>a + b\<close>, and that
  is the result of the loop in exact arithmetic; both calls return.
\<close>

theorem awardExp_twice_is_sum:
  assumes "player_exp g = real_of_int i" and "0 \<le> i" and "0 \<le> a" and "0 \<le> b"
    and "i + a + b < 2 ^ 53"
  shows "levelAndExp (awardExpTwice (real_of_int a) (real_of_int b) g)
           = levelAndExp (awardExp (fl (real_of_int a + real_of_int b)) g)
       \<and> (case levelUpLoop (real_of_int (i + a + b)) (player_level g) 0 of
            (e, level, levelsGained) \<Rightarrow>
              levelAndExp (awardExp (fl (real_of_int a + real_of_int b)) g) = Some (level, e))"
proof -
  have small: "\<bar>i + a\<bar> < 2 ^ 53" "\<bar>a + b\<bar> < 2 ^ 53" "\<bar>i + (a + b)\<bar> < 2 ^ 53"
    using assms by simp_all
  have f1: "fl (player_exp g + real_of_int a) = real_of_int (i + a)"
    using fl_int [OF small(1)] assms(1) by simp
  have fab: "fl (real_of_int a + real_of_int b) = real_of_int (a + b)"
    using fl_int [OF small(2)] by simp
  have f3: "fl (player_exp g + fl (real_of_int a + real_of_int b)) = real_of_int (i + a + b)"
    using fl_int [OF small(3)] assms(1) fab by (simp add: add.assoc)
  obtain e1 l1 n1 where r1: "levelUpLoop (real_of_int (i + a)) (player_level g) 0 = (e1, l1, n1)"
    using prod_cases3 by blast
  from levelUpLoop_int [OF r1] assms obtain m1 where
    m1: "e1 = real_of_int m1" "0 \<le> m1" "m1 \<le> i + a" by auto
  obtain e2 l2 n2 where r2: "levelUpLoop (real_of_int (m1 + b)) l1 0 = (e2, l2, n2)"
    using prod_cases3 by blast
  have d1: "levelUpLoopD (fl (player_exp g + real_of_int a)) (player_level g) 0 = Some (e1, l1, n1)"
    unfolding f1 using levelUpLoopD_int [of "i + a" "player_level g" 0] assms r1 by simp
  have "\<bar>m1 + b\<bar> < 2 ^ 53" using m1 assms by simp
  then have f2: "fl (e1 + real_of_int b) = real_of_int (m1 + b)"
    using fl_int [of "m1 + b"] m1(1) by simp
  have d2: "levelUpLoopD (fl (e1 + real_of_int b)) l1 0 = Some (e2, l2, n2)"
    unfolding f2 using levelUpLoopD_int [of "m1 + b" l1 0] m1 assms r2 by simp
  have "levelUpLoop (real_of_int (i + a) + real_of_int b) (player_level g) 0
      = levelUpLoop (e1 + real_of_int b) l1 n1"
    using levelUpLoop_more [OF _ r1, of "real_of_int b"] assms(4) by simp
  also have "\<dots> = (e2, l2, n2 + n1)"
    using levelUpLoop_shift [OF r2, of n1] m1(1) by simp
  finally have r3: "levelUpLoop (real_of_int (i + a + b)) (player_level g) 0 = (e2, l2, n2 + n1)"
    by simp
  have d3: "levelUpLoopD (fl (player_exp g + fl (real_of_int a + real_of_int b))) (player_level g) 0
      = Some (e2, l2, n2 + n1)"
    unfolding f3 using levelUpLoopD_int [of "i + a + b" "player_level g" 0] assms r3 by simp
  show ?thesis
    using levelAndExp_twice [OF d1 d2] levelAndExp_once(1) [OF d3] r3 by simp
qed

lemma levelUpLoop_110: "levelUpLoop 110 (Suc 0) 0 = (10, Suc (Suc 0), Suc 0)"
proof -
  have "levelUpLoop 110 (Suc 0) 0 = levelUpLoop (110 - real_of_int (requiredExp (Suc 0))) (Suc (Suc 0)) (Suc 0)"
    by (rule levelUpLoop_step) (simp add: requiredExp_1)
  also have "\<dots> = (10, Suc (Suc 0), Suc 0)"
    using requiredExp_ge_100 [of "Suc (Suc 0)"]
    by (simp add: requiredExp_1 levelUpLoop_stay)
  finally show ?thesis .
qed

theorem awardExp_twice_is_sum_witness:
  "player_exp GameCore = real_of_int 0 \<and> (0::int) \<le> 60 \<and> (0::int) \<le> 50
   \<and> (0::int) + 60 + 50 < 2 ^ 53
   \<and> levelAndExp (awardExpTwice 60 50 GameCore) = Some (2, 10)
   \<and> levelAndExp (awardExp (fl (60 + 50)) GameCore) = Some (2, 10)"
proof -
  have e: "player_exp GameCore = real_of_int 0" by (simp add: GameCore_player)
  from awardExp_twice_is_sum [OF e, of 60 50]
  show ?thesis using e by (simp add: GameCore_player levelUpLoop_110 numeral_2_eq_2)
qed

section \<open>Properties of a fight with a vanished enemy\<close>

lemma enemyLoot_item:
  assumes "enemyLoot g en rndWeapon rndMold = Inr (dr, g5)"
  shows "RNG dr = enemy_RNG en \<and> ID dr = fst (nextItemId g) \<and> g5 = snd (nextItemId g)"
proof -
  let ?av = "filter (\<lambda>w. weapon_mold_required w \<le> mold_level g) WEAPON_TYPES"
  from assms obtain chosen where ch: "pick ?av rndWeapon = Some chosen"
    by (cases "pick ?av rndWeapon") (simp_all add: enemyLoot_def Let_def)
  from assms ch obtain found where
    fo: "find (\<lambda>w. weapon_name w = weapon_name chosen) WEAPON_TYPES = Some found"
    by (cases "find (\<lambda>w. weapon_name w = weapon_name chosen) WEAPON_TYPES")
       (simp_all add: enemyLoot_def Let_def)
  let ?roll = "Math_floor (rndMold * real_of_int (max 1 (Math_floor
      (MAXIMUM_VALUE / ((if mold_mult g > 0 then mold_mult g else 1) * player_luck_multiplier g)))))"
  from assms ch fo obtain mr where mr: "getTier ?roll MOLD_TIERS (mold_mult g) = Inr mr"
    by (cases "getTier ?roll MOLD_TIERS (mold_mult g)") (simp_all add: enemyLoot_def Let_def)
  obtain i g1 where n: "nextItemId g = (i, g1)" by (cases "nextItemId g") auto
  from assms ch fo mr n show ?thesis by (auto simp: enemyLoot_def Let_def)
qed

lemma pick_first: "pick (x # xs) 0 = Some x"
  by (simp add: pick_def Math_floor_def)

lemma availableWeapons_first:
  "pick (filter (\<lambda>w. weapon_mold_required w \<le> m) WEAPON_TYPES) 0 = Some (''Sword'', 1, 4, 10, 0)"
proof -
  have "filter (\<lambda>w. weapon_mold_required w \<le> m) WEAPON_TYPES
      = (''Sword'', 1, 4, 10, 0) # filter (\<lambda>w. weapon_mold_required w \<le> m) (tl WEAPON_TYPES)"
    by (simp add: WEAPON_TYPES_def weapon_mold_required_def)
  then show ?thesis by (simp only: pick_first)
qed

lemma enemyLoot_returns: "\<exists>dr g5. enemyLoot g en 0 rndMold = Inr (dr, g5)"
proof -
  let ?roll = "Math_floor (rndMold * real_of_int (max 1 (Math_floor
      (MAXIMUM_VALUE / ((if mold_mult g > 0 then mold_mult g else 1) * player_luck_multiplier g)))))"
  have fo: "find (\<lambda>w. weapon_name w = weapon_name (''Sword'', 1, 4, 10, 0)) WEAPON_TYPES
      = Some (''Sword'', 1, 4, 10, 0)"
    by (simp add: WEAPON_TYPES_def weapon_name_def)
  obtain mr where mr: "getTier ?roll MOLD_TIERS (mold_mult g) = Inr mr"
    using getTier_nonempty [OF tables_nonempty(2)] by blast
  obtain i g1 where n: "nextItemId g = (i, g1)" by (cases "nextItemId g") auto
  show ?thesis
    using availableWeapons_first [of "mold_level g"] fo mr n
    by (simp add: enemyLoot_def Let_def)
qed

lemma fightVictory_absent:
  assumes sp: "spawned_enemies g areaName = Some enemies"
    and absent: "findIndex (\<lambda>e. ref e = ref en) enemies = None"
    and res: "fightVictory areaName en rndWeapon rndMold g = (Inr r, g')"
  shows "spawned_enemies g' = spawned_enemies g \<and> money g' = money g + cash en
     \<and> player_exp g'
         = player_exp (snd (checkLevelUp (g\<lparr>player_exp := player_exp g + exp_reward en\<rparr>)))
     \<and> player_level g'
         = player_level (snd (checkLevelUp (g\<lparr>player_exp := player_exp g + exp_reward en\<rparr>)))
     \<and> (\<exists>d. r = Victory (exp_reward en) (cash en)
                (fst (checkLevelUp (g\<lparr>player_exp := player_exp g + exp_reward en\<rparr>))) d
            \<and> (Elite en \<or> areaName = ''Champions Hall'' \<longrightarrow>
                 (\<exists>dr g5.
                    enemyLoot (snd (checkLevelUp (g\<lparr>money := money g + cash en,
                        player_exp := player_exp g + exp_reward en\<rparr>))) en rndWeapon rndMold
                      = Inr (dr, g5)
                    \<and> d = Some dr
                    \<and> g' = g5\<lparr>item_storage := item_storage g5 @ [dr]\<rparr>
                    \<and> item_storage g' = item_storage g @ [dr]))
            \<and> (\<not> (Elite en \<or> areaName = ''Champions Hall'') \<longrightarrow>
                 d = None \<and> item_storage g' = item_storage g
                 \<and> g' = snd (checkLevelUp (g\<lparr>money := money g + cash en,
                        player_exp := player_exp g + exp_reward en\<rparr>))))"
proof -
  let ?g2 = "g\<lparr>money := money g + cash en, player_exp := player_exp g + exp_reward en\<rparr>"
  obtain lg g3 where c: "checkLevelUp ?g2 = (lg, g3)" by (cases "checkLevelUp ?g2") auto
  have g3: "money g3 = money g + cash en" "spawned_enemies g3 = spawned_enemies g"
    "item_storage g3 = item_storage g"
    using checkLevelUp_keeps(1,2,3) [of ?g2] c by simp_all
  let ?a = "g\<lparr>player_exp := player_exp g + exp_reward en\<rparr>"
  have lv: "levelUpLoop (player_exp ?g2) (player_level ?g2) 0
      = levelUpLoop (player_exp ?a) (player_level ?a) 0" by simp
  obtain e' l' n' where r: "levelUpLoop (player_exp ?a) (player_level ?a) 0 = (e', l', n')"
    using prod_cases3 by blast
  have aw: "fst (checkLevelUp ?a) = n'"
    "player_exp (snd (checkLevelUp ?a)) = e'"
    "player_level (snd (checkLevelUp ?a)) = l'"
    using checkLevelUp_fst [OF r] checkLevelUp_snd [OF r] by simp_all
  have g3p: "lg = n'" "player_exp g3 = e'" "player_level g3 = l'"
    using checkLevelUp_fst [of ?g2 e' l' n'] checkLevelUp_snd [of ?g2 e' l' n'] r lv c
    by simp_all
  have s3: "snd (checkLevelUp ?g2) = g3" using c by simp
  show ?thesis
  proof (cases "Elite en \<or> areaName = ''Champions Hall''")
    case False
    with res c sp absent g3 have "g' = g3" "r = Victory (exp_reward en) (cash en) lg None"
      by (simp_all add: fightVictory_def Let_def)
    with g3 g3p aw False s3 show ?thesis by simp
  next
    case True
    with res c sp absent g3 obtain dr g5 where
      loot: "enemyLoot g3 en rndWeapon rndMold = Inr (dr, g5)"
      and g': "g' = g5\<lparr>item_storage := item_storage g5 @ [dr]\<rparr>"
      and r': "r = Victory (exp_reward en) (cash en) lg (Some dr)"
      by (auto simp: fightVictory_def Let_def split: sum.splits prod.splits)
    from enemyLoot_keeps [OF loot] g' g3 g3p aw
    have basics: "spawned_enemies g' = spawned_enemies g" "money g' = money g + cash en"
      "player_exp g' = player_exp (snd (checkLevelUp ?a))"
      "player_level g' = player_level (snd (checkLevelUp ?a))"
      "item_storage g' = item_storage g @ [dr]"
      by simp_all
    have "r = Victory (exp_reward en) (cash en) (fst (checkLevelUp ?a)) (Some dr)"
      using r' g3p aw by simp
    moreover have "\<exists>dr' g5'. enemyLoot (snd (checkLevelUp ?g2)) en rndWeapon rndMold = Inr (dr', g5')
        \<and> Some dr = Some dr' \<and> g' = g5'\<lparr>item_storage := item_storage g5' @ [dr']\<rparr>
        \<and> item_storage g' = item_storage g @ [dr']"
      using loot g' basics(5) s3 by auto
    ultimately show ?thesis using basics True by blast
  qed
qed

text \<open>
  Claim C3, as amended. \<open>fightEnemy\<close> does not check that the enemy is still in the area's
  list. When it is absent the fight is resolved as for a present enemy: a victory grants
  the enemy's cash and experience (resolved by \<open>checkLevelUp\<close>) and reports them; for an
  elite enemy or in Champions Hall it also reports the item that \<open>enemyLoot\<close> builds and
  appends it to the item storage, and otherwise it reports no drop and leaves the storage
  as it is; only the removal is skipped, so the spawned-enemy lists stay as they are. A
  fight that is not won changes nothing.
\<close>

theorem fightEnemy_absent_enemy:
  "(spawned_enemies g areaName = Some enemies
      \<and> findIndex (\<lambda>e. ref e = ref en) enemies = None
      \<and> fightEnemy areaName en dropItems rndWeapon rndMold g = Some (Inr (Victory ex c lg d), g')
    \<longrightarrow> spawned_enemies g' = spawned_enemies g
        \<and> money g' = money g + cash en
        \<and> ex = exp_reward en \<and> c = cash en
        \<and> lg = fst (checkLevelUp (g\<lparr>player_exp := player_exp g + exp_reward en\<rparr>))
        \<and> player_exp g'
            = player_exp (snd (checkLevelUp (g\<lparr>player_exp := player_exp g + exp_reward en\<rparr>)))
        \<and> player_level g'
            = player_level (snd (checkLevelUp (g\<lparr>player_exp := player_exp g + exp_reward en\<rparr>)))
        \<and> (Elite en \<or> areaName = ''Champions Hall'' \<longrightarrow>
             (\<exists>dr g5.
                enemyLoot (snd (checkLevelUp (g\<lparr>money := money g + cash en,
                    player_exp := player_exp g + exp_reward en\<rparr>))) en rndWeapon rndMold
                  = Inr (dr, g5)
                \<and> d = Some dr
                \<and> g' = g5\<lparr>item_storage := item_storage g5 @ [dr]\<rparr>
                \<and> item_storage g' = item_storage g @ [dr]
                \<and> RNG dr = enemy_RNG en))
        \<and> (\<not> (Elite en \<or> areaName = ''Champions Hall'') \<longrightarrow>
             d = None \<and> item_storage g' = item_storage g
             \<and> g' = snd (checkLevelUp (g\<lparr>money := money g + cash en,
                    player_exp := player_exp g + exp_reward en\<rparr>))))
   \<and> (fightEnemy areaName en dropItems rndWeapon rndMold g = Some (Inr (NoVictory m), g')
    \<longrightarrow> g' = g)"
proof (intro conjI impI)
  assume a: "spawned_enemies g areaName = Some enemies
      \<and> findIndex (\<lambda>e. ref e = ref en) enemies = None
      \<and> fightEnemy areaName en dropItems rndWeapon rndMold g = Some (Inr (Victory ex c lg d), g')"
  let ?a = "g\<lparr>player_exp := player_exp g + exp_reward en\<rparr>"
  let ?g2 = "g\<lparr>money := money g + cash en, player_exp := player_exp g + exp_reward en\<rparr>"
  from a have fv: "fightVictory areaName en rndWeapon rndMold g = (Inr (Victory ex c lg d), g')"
    by (auto simp: fightEnemy_def split: option.splits loop_exit.splits if_splits)
  from fightVictory_absent [OF _ _ fv] a
  have all: "spawned_enemies g' = spawned_enemies g \<and> money g' = money g + cash en
     \<and> player_exp g' = player_exp (snd (checkLevelUp ?a))
     \<and> player_level g' = player_level (snd (checkLevelUp ?a))
     \<and> (\<exists>d'. Victory ex c lg d = Victory (exp_reward en) (cash en) (fst (checkLevelUp ?a)) d'
            \<and> (Elite en \<or> areaName = ''Champions Hall'' \<longrightarrow>
                 (\<exists>dr g5. enemyLoot (snd (checkLevelUp ?g2)) en rndWeapon rndMold = Inr (dr, g5)
                    \<and> d' = Some dr
                    \<and> g' = g5\<lparr>item_storage := item_storage g5 @ [dr]\<rparr>
                    \<and> item_storage g' = item_storage g @ [dr]))
            \<and> (\<not> (Elite en \<or> areaName = ''Champions Hall'') \<longrightarrow>
                 d' = None \<and> item_storage g' = item_storage g
                 \<and> g' = snd (checkLevelUp ?g2)))"
    by blast
  then show "spawned_enemies g' = spawned_enemies g" "money g' = money g + cash en"
    "ex = exp_reward en" "c = cash en" "lg = fst (checkLevelUp ?a)"
    "player_exp g' = player_exp (snd (checkLevelUp ?a))"
    "player_level g' = player_level (snd (checkLevelUp ?a))"
    by auto
  {
    assume "Elite en \<or> areaName = ''Champions Hall''"
    with all obtain dr g5 where
      l: "enemyLoot (snd (checkLevelUp ?g2)) en rndWeapon rndMold = Inr (dr, g5)"
      and r: "d = Some dr" "g' = g5\<lparr>item_storage := item_storage g5 @ [dr]\<rparr>"
        "item_storage g' = item_storage g @ [dr]"
      by auto
    from enemyLoot_item [OF l] have "RNG dr = enemy_RNG en" by simp
    with l r show "\<exists>dr g5. enemyLoot (snd (checkLevelUp ?g2)) en rndWeapon rndMold = Inr (dr, g5)
        \<and> d = Some dr \<and> g' = g5\<lparr>item_storage := item_storage g5 @ [dr]\<rparr>
        \<and> item_storage g' = item_storage g @ [dr] \<and> RNG dr = enemy_RNG en"
      by blast
  }
  {
    assume "\<not> (Elite en \<or> areaName = ''Champions Hall'')"
    with all show "d = None" "item_storage g' = item_storage g" "g' = snd (checkLevelUp ?g2)"
      by auto
  }
next
  assume a: "fightEnemy areaName en dropItems rndWeapon rndMold g = Some (Inr (NoVictory m), g')"
  have "r \<noteq> Inr (NoVictory m)" if "fightVictory areaName en rndWeapon rndMold g = (r, s)" for r s
    using that
    by (auto simp: fightVictory_def Let_def split: option.splits sum.splits prod.splits if_splits)
  with a show "g' = g"
    by (cases "fightVictory areaName en rndWeapon rndMold g")
       (auto simp: fightEnemy_def split: option.splits loop_exit.splits if_splits)
qed

lemma scan_nonpositive:
  assumes "roll \<le> 0" and "\<forall>t\<in>set tiers. 0 \<le> tier_threshold t"
  shows "getTier_scan roll tiers i = None"
proof (induction "length tiers - i" arbitrary: i)
  case 0
  then show ?case by (subst getTier_scan.simps) simp
next
  case (Suc n)
  then have i: "i < length tiers" by simp
  have "0 \<le> prevThreshold tiers i"
    using assms(2) i by (simp add: prevThreshold_def)
  then have "\<not> prevThreshold tiers i < roll" using assms(1) by simp
  then have "getTier_scan roll tiers i = getTier_scan roll tiers (i + 1)"
    using i by (subst getTier_scan.simps) (simp add: Let_def)
  also have "\<dots> = None" using Suc by simp
  finally show ?case .
qed

lemma getTier_zero_mold:
  "getTier 0 MOLD_TIERS luck
     = Inr \<lparr>tier = ''Copper'', rng_roll = 0,
            range_start = tier_threshold (MOLD_TIERS ! 8),
            range_end = tier_threshold (MOLD_TIERS ! 9), tier_values = (1.2, 1.2)\<rparr>"
proof -
  have "\<forall>t\<in>set MOLD_TIERS. 0 \<le> tier_threshold t"
    by (simp add: MOLD_TIERS_def tier_threshold_def Math_floor_def MAXIMUM_VALUE_def)
  then have "getTier_scan 0 MOLD_TIERS 0 = None" by (intro scan_nonpositive) simp_all
  moreover have "length MOLD_TIERS = 10" "MOLD_TIERS \<noteq> []"
    "tier_name (MOLD_TIERS ! 9) = ''Copper''" "tier_extras (MOLD_TIERS ! 9) = (1.2, 1.2)"
    by (simp_all add: MOLD_TIERS_def tier_name_def tier_extras_def)
  ultimately show ?thesis by (simp add: getTier_def Let_def)
qed

lemma findIndex_common:
  "findIndex (\<lambda>r. tier_name r = ''Common'') RARITY_TIERS = Some 21"
proof -
  have i: "21 < length RARITY_TIERS" by (simp add: RARITY_TIERS_length)
  have "tier_name (RARITY_TIERS ! 21) = ''Common''"
    by (simp add: RARITY_TIERS_def tier_name_def)
  with findIndex_distinct [OF RARITY_TIERS_distinct i] show ?thesis by simp
qed

lemma eliteLoot:
  assumes "recycled_ids g = []" and "item_id_counter g = 0"
  shows "enemyLoot g eliteEnemy 0 0 = Inr (commonDrop, g\<lparr>item_id_counter := 1\<rparr>)"
proof -
  have fo: "find (\<lambda>w. weapon_name w = weapon_name (''Sword'', 1, 4, 10, 0)) WEAPON_TYPES
      = Some (''Sword'', 1, 4, 10, 0)"
    by (simp add: WEAPON_TYPES_def weapon_name_def)
  have row: "tier_name (RARITY_TIERS ! 21) = ''Common''"
    "tier_extras (RARITY_TIERS ! 21) = (1.5, 1, 1)"
    by (simp_all add: RARITY_TIERS_def tier_name_def tier_extras_def)
  have n: "nextItemId g = (0, g\<lparr>item_id_counter := 1\<rparr>)"
    using assms by (simp add: nextItemId_def)
  show ?thesis
    using availableWeapons_first [of "mold_level g"] fo n
    by (simp add: enemyLoot_def Let_def eliteEnemy_def commonDrop_def findIndex_common row
        getTier_zero_mold Math_floor_def weapon_name_def
        weapon_base_damage_def weapon_base_defense_def)
qed

lemma fightVictory_loot:
  assumes "checkLevelUp (g\<lparr>money := money g + cash en,
                            player_exp := player_exp g + exp_reward en\<rparr>) = (lg, g3)"
    and "spawned_enemies g3 areaName = Some enemies"
    and "findIndex (\<lambda>e. ref e = ref en) enemies = None"
    and "Elite en \<or> areaName = ''Champions Hall''"
    and "enemyLoot g3 en rndWeapon rndMold = Inr (dr, g5)"
  shows "fightVictory areaName en rndWeapon rndMold g
      = (Inr (Victory (exp_reward en) (cash en) lg (Some dr)),
         g5\<lparr>item_storage := item_storage g5 @ [dr]\<rparr>)"
  using assms by (simp add: fightVictory_def Let_def)

lemma checkLevelUp_keeps_counter [simp]:
  "item_id_counter (snd (checkLevelUp g)) = item_id_counter g"
  by (simp add: checkLevelUp_def updateLuckMult_def Let_def split: prod.splits)

lemma sweptGame_elite_fight:
  "\<exists>lg g'. fightEnemy ''Elite Hall'' eliteEnemy True 0 0 sweptGame
      = Some (Inr (Victory 400 1750 lg (Some commonDrop)), g')"
proof -
  let ?g2 = "sweptGame\<lparr>money := money sweptGame + cash eliteEnemy,
                 player_exp := player_exp sweptGame + exp_reward eliteEnemy\<rparr>"
  obtain lg g3 where c: "checkLevelUp ?g2 = (lg, g3)" by (cases "checkLevelUp ?g2") auto
  have k: "spawned_enemies g3 = spawned_enemies sweptGame" "recycled_ids g3 = recycled_ids sweptGame"
    "item_id_counter g3 = item_id_counter sweptGame"
    using checkLevelUp_keeps(2,5) [of ?g2] checkLevelUp_keeps_counter [of ?g2] c by simp_all
  have sp: "spawned_enemies sweptGame ''Elite Hall'' = Some []"
    by (simp add: sweptGame_def removeExpiredEnemies_def GameCore_def recalculate_def
        updateLuckMult_def Let_def AREAS_def)
  have ids: "recycled_ids sweptGame = []" "item_id_counter sweptGame = 0"
    by (simp_all add: sweptGame_def GameCore_def recalculate_def updateLuckMult_def Let_def)
  have loot: "enemyLoot g3 eliteEnemy 0 0 = Inr (commonDrop, g3\<lparr>item_id_counter := 1\<rparr>)"
    using k ids by (intro eliteLoot) simp_all
  have fv: "fightVictory ''Elite Hall'' eliteEnemy 0 0 sweptGame
      = (Inr (Victory (exp_reward eliteEnemy) (cash eliteEnemy) lg (Some commonDrop)),
         (g3\<lparr>item_id_counter := 1\<rparr>)\<lparr>item_storage :=
            item_storage (g3\<lparr>item_id_counter := 1\<rparr>) @ [commonDrop]\<rparr>)"
    using k sp by (intro fightVictory_loot [OF c _ _ _ loot, of "''Elite Hall''" "[]"])
      (simp_all add: eliteEnemy_def)
  have loop: "combatLoop zenithSword eliteEnemy (Fin 100) (health eliteEnemy) = Some EnemyDead"
    by (rule combatLoop_first_hit) (simp_all add: eliteEnemy_def zenithSword_def)
  have eq: "player_equipped sweptGame = Some zenithSword" by (simp add: sweptGame_def)
  have "exp_reward eliteEnemy = 400" "cash eliteEnemy = 1750" by (simp_all add: eliteEnemy_def)
  with fv loop eq show ?thesis by (simp add: fightEnemy_def)
qed

text \<open>
  The claim as stated fails: after the sweep has removed \<open>commonEnemy\<close> from Beginner Hall,
  fighting it is a victory that adds 50 money and 20 experience.
\<close>

theorem fightEnemy_absent_enemy_counterexample:
  "spawned_enemies sweptGame ''Beginner Hall'' = Some []
   \<and> fightEnemy ''Beginner Hall'' commonEnemy False 0 0 sweptGame
     = Some (Inr (Victory 20 50 0 None), sweptGame\<lparr>money := 50, player_exp := 20\<rparr>)
   \<and> sweptGame\<lparr>money := 50, player_exp := 20\<rparr> \<noteq> sweptGame"
proof -
  have "money (sweptGame\<lparr>money := 50, player_exp := 20\<rparr>) \<noteq> money sweptGame"
    by (simp add: sweptGame_def GameCore_money)
  then have "sweptGame\<lparr>money := 50, player_exp := 20\<rparr> \<noteq> sweptGame" by metis
  with sweptGame_fight show ?thesis by simp
qed

theorem fightEnemy_absent_enemy_witness:
  "spawned_enemies sweptGame ''Beginner Hall'' = Some []
   \<and> findIndex (\<lambda>e. ref e = ref commonEnemy) [] = None
   \<and> fightEnemy ''Beginner Hall'' commonEnemy False 0 0 sweptGame
     = Some (Inr (Victory 20 50 0 None), sweptGame\<lparr>money := 50, player_exp := 20\<rparr>)
   \<and> spawned_enemies (sweptGame\<lparr>money := 50, player_exp := 20\<rparr>) = spawned_enemies sweptGame
   \<and> money (sweptGame\<lparr>money := 50, player_exp := 20\<rparr>) = money sweptGame + cash commonEnemy
   \<and> item_storage (sweptGame\<lparr>money := 50, player_exp := 20\<rparr>) = item_storage sweptGame
   \<and> spawned_enemies sweptGame ''Elite Hall'' = Some []
   \<and> Elite eliteEnemy
   \<and> (\<exists>lg g'. fightEnemy ''Elite Hall'' eliteEnemy True 0 0 sweptGame
          = Some (Inr (Victory 400 1750 lg (Some commonDrop)), g')
        \<and> item_storage g' = item_storage sweptGame @ [commonDrop]
        \<and> money g' = money sweptGame + cash eliteEnemy
        \<and> spawned_enemies g' = spawned_enemies sweptGame
        \<and> RNG commonDrop = enemy_RNG eliteEnemy)"
proof -
  have sp: "spawned_enemies sweptGame ''Elite Hall'' = Some []"
    by (simp add: sweptGame_def removeExpiredEnemies_def GameCore_def recalculate_def
        updateLuckMult_def Let_def AREAS_def)
  have el: "Elite eliteEnemy" by (simp add: eliteEnemy_def)
  have ab: "findIndex (\<lambda>e. ref e = ref eliteEnemy) [] = None" by simp
  obtain lg g' where f: "fightEnemy ''Elite Hall'' eliteEnemy True 0 0 sweptGame
      = Some (Inr (Victory 400 1750 lg (Some commonDrop)), g')"
    using sweptGame_elite_fight by blast
  from fightEnemy_absent_enemy [of sweptGame "''Elite Hall''" "[]" eliteEnemy True 0 0
      400 1750 lg "Some commonDrop" g'] sp ab f el
  have "item_storage g' = item_storage sweptGame @ [commonDrop]
        \<and> money g' = money sweptGame + cash eliteEnemy
        \<and> spawned_enemies g' = spawned_enemies sweptGame
        \<and> RNG commonDrop = enemy_RNG eliteEnemy"
    by auto
  with f have elite: "\<exists>lg g'. fightEnemy ''Elite Hall'' eliteEnemy True 0 0 sweptGame
          = Some (Inr (Victory 400 1750 lg (Some commonDrop)), g')
        \<and> item_storage g' = item_storage sweptGame @ [commonDrop]
        \<and> money g' = money sweptGame + cash eliteEnemy
        \<and> spawned_enemies g' = spawned_enemies sweptGame
        \<and> RNG commonDrop = enemy_RNG eliteEnemy"
    by blast
  from sweptGame_fight
    fightEnemy_absent_enemy [of sweptGame "''Beginner Hall''" "[]" commonEnemy False 0 0
      20 50 0 None "sweptGame\<lparr>money := 50, player_exp := 20\<rparr>"]
  have plain: "spawned_enemies sweptGame ''Beginner Hall'' = Some []
   \<and> fightEnemy ''Beginner Hall'' commonEnemy False 0 0 sweptGame
     = Some (Inr (Victory 20 50 0 None), sweptGame\<lparr>money := 50, player_exp := 20\<rparr>)
   \<and> money (sweptGame\<lparr>money := 50, player_exp := 20\<rparr>) = money sweptGame + cash commonEnemy"
    by simp
  show ?thesis using plain elite sp el by simp
qed

end
